theory Spec2Isabelle
  imports Complex_Main "HOL-Library.Char_ord" "HOL-Library.List_Lexorder"
begin

section \<open>Values of the persisted JSON document\<close>

text \<open>
  The extraction result is stored as one JSON document (a JSONB column) that the Python code
  handles as nested dicts and lists. A Python float is read as the real number it denotes;
  a Python str is a list of characters (non-ASCII text is written as its UTF-8 bytes, which
  keeps equality and the code-point order of strings). A dict is an association list with
  distinct keys in insertion order.
\<close>

datatype json =
    JNull
  | JBool bool
  | JNum real
  | JStr string
  | JList "json list"
  | JObj "(string \<times> json) list"

type_synonym dict = "(string \<times> json) list"

text \<open>\<open>d.get(k)\<close>; \<open>None\<close> stands for an absent key.\<close>

definition dict_get :: "('k \<times> 'v) list \<Rightarrow> 'k \<Rightarrow> 'v option" where
  "dict_get d k = map_of d k"

text \<open>\<open>k in d\<close>.\<close>

definition dict_has :: "('k \<times> 'v) list \<Rightarrow> 'k \<Rightarrow> bool" where
  "dict_has d k = (map_of d k \<noteq> None)"

text \<open>\<open>d[k] = v\<close>: an existing key keeps its position, a new key goes to the end.\<close>

fun dict_set :: "('k \<times> 'v) list \<Rightarrow> 'k \<Rightarrow> 'v \<Rightarrow> ('k \<times> 'v) list" where
  "dict_set [] k v = [(k, v)]"
| "dict_set (p # ps) k v = (if fst p = k then (k, v) # ps else p # dict_set ps k v)"

text \<open>\<open>d.get(k, default)\<close> on JSON values.\<close>

definition get_or :: "dict \<Rightarrow> string \<Rightarrow> json \<Rightarrow> json" where
  "get_or d k dflt = (case dict_get d k of None \<Rightarrow> dflt | Some v \<Rightarrow> v)"

text \<open>\<open>d.get(k)\<close> with Python's \<open>None\<close> as JSON null.\<close>

definition get_json :: "dict \<Rightarrow> string \<Rightarrow> json" where
  "get_json d k = get_or d k JNull"

text \<open>Python truthiness (\<open>bool(x)\<close>) of a JSON value.\<close>

fun truthy :: "json \<Rightarrow> bool" where
  "truthy JNull = False"
| "truthy (JBool b) = b"
| "truthy (JNum x) = (x \<noteq> 0)"
| "truthy (JStr s) = (s \<noteq> [])"
| "truthy (JList xs) = (xs \<noteq> [])"
| "truthy (JObj d) = (d \<noteq> [])"

text \<open>An \<open>Optional[str]\<close> as a JSON value.\<close>

fun opt_str :: "string option \<Rightarrow> json" where
  "opt_str None = JNull"
| "opt_str (Some s) = JStr s"



section \<open>Similarity scorer (\<open>app/services/similarity_service.py\<close>)\<close>

definition SIMILARITY_THRESHOLD :: real where
  "SIMILARITY_THRESHOLD = 0.8"

definition CONFIDENCE_THRESHOLD :: real where
  "CONFIDENCE_THRESHOLD = 0.7"

text \<open>
  \<open>str.strip()\<close>: leading and trailing whitespace is removed. Characters are code units
  here, so the whitespace recognised is the ASCII part of Python's.
\<close>

definition py_isspace :: "char \<Rightarrow> bool" where
  "py_isspace c = (of_char c \<in> {9, 10, 11, 12, 13, 28, 29, 30, 31, 32 :: nat})"

definition strip :: "string \<Rightarrow> string" where
  "strip s = rev (dropWhile py_isspace (rev (dropWhile py_isspace s)))"

text \<open>
  The two functions of the \<open>rapidfuzz\<close> library that the scorer calls:
  \<open>distance.Levenshtein.distance\<close> (unit-cost edit distance) and \<open>fuzz.ratio\<close>
  (the normalised insertion/deletion similarity, on a scale of 0 to 100).
\<close>

fun levenshtein_distance :: "string \<Rightarrow> string \<Rightarrow> nat" where
  "levenshtein_distance [] ys = length ys"
| "levenshtein_distance (x # xs) [] = Suc (length xs)"
| "levenshtein_distance (x # xs) (y # ys) =
     min (Suc (levenshtein_distance xs (y # ys)))
       (min (Suc (levenshtein_distance (x # xs) ys))
            (levenshtein_distance xs ys + (if x = y then 0 else 1)))"

fun lcs_length :: "string \<Rightarrow> string \<Rightarrow> nat" where
  "lcs_length [] ys = 0"
| "lcs_length (x # xs) [] = 0"
| "lcs_length (x # xs) (y # ys) =
     (if x = y then Suc (lcs_length xs ys)
      else max (lcs_length xs (y # ys)) (lcs_length (x # xs) ys))"

definition fuzz_ratio :: "string \<Rightarrow> string \<Rightarrow> real" where
  "fuzz_ratio s1 s2 =
     (if length s1 + length s2 = 0 then 100
      else 100 * (2 * real (lcs_length s1 s2)) / real (length s1 + length s2))"

fun calculate_levenshtein_similarity :: "string option \<Rightarrow> string option \<Rightarrow> real" where
  "calculate_levenshtein_similarity None None = 1.0"
| "calculate_levenshtein_similarity None (Some i) = 0.0"
| "calculate_levenshtein_similarity (Some r) None = 0.0"
| "calculate_levenshtein_similarity (Some r) (Some i) =
     (if r = [] \<and> i = [] then 1.0
      else if r = [] \<or> i = [] then 0.0
      else let raw_text = strip r;
               interpreted_text = strip i;
               max_len = max (length raw_text) (length interpreted_text)
           in if max_len = 0 then 1.0
              else 1.0 - real (levenshtein_distance raw_text interpreted_text) / real max_len)"

fun calculate_semantic_similarity :: "string option \<Rightarrow> string option \<Rightarrow> real" where
  "calculate_semantic_similarity None None = 1.0"
| "calculate_semantic_similarity None (Some i) = 0.0"
| "calculate_semantic_similarity (Some r) None = 0.0"
| "calculate_semantic_similarity (Some r) (Some i) =
     (let raw_text = strip r;
          interpreted_text = strip i
      in if raw_text = [] \<and> interpreted_text = [] then 1.0
         else if raw_text = [] \<or> interpreted_text = [] then 0.0
         else fuzz_ratio raw_text interpreted_text / 100.0)"

text \<open>
  \<open>should_review(similarity_score, confidence_score, error_occurred)\<close>; the scores are
  \<open>Optional[float]\<close>.
\<close>

definition should_review :: "real option \<Rightarrow> real option \<Rightarrow> bool \<Rightarrow> bool" where
  "should_review similarity_score confidence_score error_occurred =
     (if error_occurred then True
      else if similarity_score = None \<or> confidence_score = None then True
      else the similarity_score < SIMILARITY_THRESHOLD
           \<or> the confidence_score < CONFIDENCE_THRESHOLD)"

section \<open>Exceptions\<close>

text \<open>
  The exceptions that the modelled code can raise, each with its message; \<open>ProviderError\<close>
  stands for whatever the client library of the AI provider raises, \<open>IntegrityError\<close> for
  the error of the database when a constraint is violated.
\<close>

datatype exn =
    KeyError string
  | TypeError string
  | ValueError string
  | AttributeError string
  | RuntimeError string
  | IntegrityError string
  | ProviderError string

text \<open>\<open>str(e)\<close>.\<close>

fun exn_str :: "exn \<Rightarrow> string" where
  "exn_str (KeyError k) = CHR 0x27 # k @ [CHR 0x27]"
| "exn_str (TypeError m) = m"
| "exn_str (ValueError m) = m"
| "exn_str (AttributeError m) = m"
| "exn_str (RuntimeError m) = m"
| "exn_str (IntegrityError m) = m"
| "exn_str (ProviderError m) = m"

section \<open>Database rows and their updates (\<open>app/db/models.py\<close>, \<open>app/services/db_service.py\<close>)\<close>

datatype ProcessStatus = PENDING | PROCESSING | COMPLETED | FAILED | PARTIAL_SUCCESS

record Chart =
  c_status :: ProcessStatus
  c_error_message :: "string option"
  c_overall_confidence_score :: "real option"
  c_needs_review :: bool
  c_reviewed_by :: json
  c_reviewed_at :: "string option"

record ExtractedData =
  ed_id :: int
  data :: dict

text \<open>
  The two tables, keyed by chart id (\<open>query(...).filter(chart_id == ...).first()\<close>), and
  the next value of the autoincrement key of \<open>extracted_data\<close>.
\<close>

record db =
  charts :: "nat \<rightharpoonup> Chart"
  extracted :: "nat \<rightharpoonup> ExtractedData"
  next_id :: int

text \<open>Truthiness of an \<open>Optional[str]\<close>: \<open>None\<close> and the empty string are false.\<close>

fun str_truthy :: "string option \<Rightarrow> bool" where
  "str_truthy None = False"
| "str_truthy (Some s) = (s \<noteq> [])"

definition update_chart_status ::
  "db \<Rightarrow> nat \<Rightarrow> ProcessStatus \<Rightarrow> string option \<Rightarrow> db" where
  "update_chart_status d chart_id st msg =
     (case charts d chart_id of
        None \<Rightarrow> d
      | Some chart \<Rightarrow>
          d\<lparr>charts := (charts d)(chart_id \<mapsto>
               chart\<lparr>c_status := st,
                     c_error_message := (if str_truthy msg then msg else c_error_message chart)\<rparr>)\<rparr>)"

text \<open>
  \<open>now\<close> is the reading of the clock (\<open>datetime.now()\<close>). The argument
  \<open>reviewed_by\<close> is whatever value the caller hands over (\<open>None\<close> is JSON null);
  the attribute \<open>chart.reviewed_by\<close> keeps the value assigned to it. (The column is a
  string column: the conversion that the database driver makes of a value that is not a
  string is not part of the model.)
\<close>

definition update_chart_review_status ::
  "string \<Rightarrow> db \<Rightarrow> nat \<Rightarrow> bool \<Rightarrow> real option \<Rightarrow> json \<Rightarrow> db" where
  "update_chart_review_status now d chart_id nr score by =
     (case charts d chart_id of
        None \<Rightarrow> d
      | Some chart \<Rightarrow>
          let c1 = chart\<lparr>c_needs_review := nr\<rparr>;
              c2 = (if score \<noteq> None then c1\<lparr>c_overall_confidence_score := score\<rparr> else c1);
              c3 = (if truthy by \<and> \<not> nr
                    then c2\<lparr>c_reviewed_by := by, c_reviewed_at := Some now\<rparr> else c2)
          in d\<lparr>charts := (charts d)(chart_id \<mapsto> c3)\<rparr>)"

text \<open>
  \<open>create_extracted_data_jsonb\<close>: the chart's former row, if any, is deleted and a new one
  takes its place; then the chart's review fields are written. The column \<open>chart_id\<close> is
  a foreign key into the charts: without the chart the commit of the new row fails, the
  session is rolled back and the error is raised again (its message is abbreviated here).
\<close>

definition create_extracted_data_jsonb ::
  "string \<Rightarrow> db \<Rightarrow> nat \<Rightarrow> dict \<Rightarrow> real option \<Rightarrow> bool \<Rightarrow> exn + db" where
  "create_extracted_data_jsonb now d chart_id doc score nr =
     (if charts d chart_id = None
      then Inl (IntegrityError ''violates foreign key constraint'')
      else
        let d1 = d\<lparr>extracted := (extracted d)(chart_id \<mapsto> \<lparr>ed_id = next_id d, data = doc\<rparr>),
                   next_id := next_id d + 1\<rparr>
        in Inr (update_chart_review_status now d1 chart_id nr score JNull))"

section \<open>The AI provider (\<open>app/services/gemini_service.py\<close>)\<close>

text \<open>
  One pass through the body of the \<open>try\<close> inside the retry loop: the provider's answer is
  returned, or an exception is raised (an API error, an answer that is not JSON), or the
  branch taken ends without a \<open>return\<close> and leaves the loop through \<open>break\<close>.
\<close>

datatype 'a attempt = Returns 'a | Raises exn | Falls_through

text \<open>
  The loop \<open>while retries <= max_retries\<close>, with the outcome of each attempt given by its
  index. The waiting time between two attempts is not part of the model.
\<close>

function retry_loop :: "string \<Rightarrow> nat \<Rightarrow> (nat \<Rightarrow> 'a attempt) \<Rightarrow> nat \<Rightarrow> exn + 'a" where
  "retry_loop name max_retries attempt retries =
     (if retries \<le> max_retries then
        (case attempt retries of
           Returns x \<Rightarrow> Inr x
         | Falls_through \<Rightarrow> Inl (RuntimeError (''Unexpected execution flow in '' @ name))
         | Raises e \<Rightarrow>
             (if retries + 1 \<le> max_retries
              then retry_loop name max_retries attempt (retries + 1)
              else Inl e))
      else Inl (RuntimeError (''Unexpected execution flow in '' @ name)))"
  by pat_completeness auto
termination
  by (relation "measure (\<lambda>(name, max_retries, attempt, retries). Suc max_retries - retries)") auto

declare retry_loop.simps [simp del]

text \<open>A list item of the provider's answer: a \<open>Dict[str, str]\<close>.\<close>

type_synonym item = "(string \<times> string) list"

definition extract_raw_data_from_image :: "(nat \<Rightarrow> item list attempt) \<Rightarrow> exn + item list" where
  "extract_raw_data_from_image attempt =
     retry_loop ''extract_raw_data_from_image'' 3 attempt 0"

text \<open>
  \<open>interpret_extracted_data\<close> first reads the name of every raw item, outside the
  \<open>try\<close>: a raw item without \<open>item_name\<close> raises before the first attempt.
\<close>

definition interpret_extracted_data ::
  "(item list \<Rightarrow> nat \<Rightarrow> item list attempt) \<Rightarrow> item list \<Rightarrow> exn + item list" where
  "interpret_extracted_data attempt raw_items =
     (if list_ex (\<lambda>it. \<not> dict_has it ''item_name'') raw_items
      then Inl (KeyError ''item_name'')
      else retry_loop ''interpret_extracted_data'' 3 (attempt raw_items) 0)"

section \<open>Extraction orchestrator (\<open>app/tasks/process_chart.py\<close>)\<close>

text \<open>The seven default field names, as UTF-8.\<close>

definition default_keys :: "string list" where
  "default_keys =
     [[CHR 0xE4, CHR 0xB8, CHR 0xBB, CHR 0xE8, CHR 0xA8, CHR 0xB4],
      [CHR 0xE7, CHR 0x8F, CHR 0xBE, CHR 0xE7, CHR 0x97, CHR 0x85, CHR 0xE6, CHR 0xAD, CHR 0xB4],
      [CHR 0xE6, CHR 0x97, CHR 0xA2, CHR 0xE5, CHR 0xBE, CHR 0x80, CHR 0xE6, CHR 0xAD, CHR 0xB4],
      [CHR 0xE5, CHR 0xAE, CHR 0xB6, CHR 0xE6, CHR 0x97, CHR 0x8F, CHR 0xE6, CHR 0xAD, CHR 0xB4],
      [CHR 0xE7, CHR 0x94, CHR 0x9F, CHR 0xE6, CHR 0xB4, CHR 0xBB, CHR 0xE6, CHR 0xAD, CHR 0xB4],
      [CHR 0xE5, CHR 0x86, CHR 0x85, CHR 0xE6, CHR 0x9C, CHR 0x8D, CHR 0xE8, CHR 0x96, CHR 0xAC],
      [CHR 0xE8, CHR 0xBA, CHR 0xAB, CHR 0xE4, CHR 0xBD, CHR 0x93, CHR 0xE6, CHR 0x89, CHR 0x80,
       CHR 0xE8, CHR 0xA6, CHR 0x8B]]"

definition default_raw_items :: "item list" where
  "default_raw_items = map (\<lambda>k. [(''item_name'', k), (''raw_text'', [])]) default_keys"

text \<open>
  The dict comprehension \<open>{item["item_name"]: item.get(field) for item in items}\<close>:
  a later item of the same name replaces the value, an item without \<open>item_name\<close> raises.
\<close>

fun to_dict ::
  "string \<Rightarrow> item list \<Rightarrow> (string \<times> string option) list
     \<Rightarrow> exn + (string \<times> string option) list" where
  "to_dict field [] acc = Inr acc"
| "to_dict field (it # its) acc =
     (case dict_get it ''item_name'' of
        None \<Rightarrow> Inl (KeyError ''item_name'')
      | Some name \<Rightarrow> to_dict field its (dict_set acc name (dict_get it field)))"

text \<open>\<open>d.get(key)\<close> on a dict whose values are \<open>Optional[str]\<close>.\<close>

definition get_text :: "(string \<times> string option) list \<Rightarrow> string \<Rightarrow> string option" where
  "get_text d key = (case dict_get d key of None \<Rightarrow> None | Some v \<Rightarrow> v)"

text \<open>The set \<open>all_keys\<close>, with the default names when it is empty.\<close>

definition all_keys ::
  "(string \<times> string option) list \<Rightarrow> (string \<times> string option) list \<Rightarrow> string set" where
  "all_keys raw_dict interpreted_dict =
     (let ks = fst ` set raw_dict \<union> fst ` set interpreted_dict
      in if ks = {} then set default_keys else ks)"

text \<open>
  The body of the loop over \<open>all_keys\<close> up to the record \<open>item_data\<close>, from the two
  texts found for the key: the record and the flag \<open>item_needs_review\<close>.
\<close>

definition make_item_data :: "string option \<Rightarrow> string option \<Rightarrow> dict \<times> bool" where
  "make_item_data raw_text interpreted0 =
     (let error0 = (raw_text = None \<or> interpreted0 = None);
          replaced = (interpreted0 = None \<and> raw_text \<noteq> None);
          interpreted_text = (if replaced then raw_text else interpreted0);
          error_occurred = (if replaced then True else error0);
          similarity_score =
            (if \<not> error_occurred
             then calculate_levenshtein_similarity raw_text interpreted_text else 0.0);
          confidence_score =
            (if \<not> error_occurred
             then calculate_semantic_similarity raw_text interpreted_text else 0.0);
          item_needs_review =
            should_review (Some similarity_score) (Some confidence_score) error_occurred
      in ([(''raw_text'', opt_str raw_text),
           (''interpreted_text'', opt_str interpreted_text),
           (''similarity_score'', JNum similarity_score),
           (''confidence_score'', JNum confidence_score),
           (''needs_review'', JBool item_needs_review),
           (''review_comment'', JNull),
           (''reviewed_by'', JNull),
           (''reviewed_at'', JNull),
           (''error_occurred'', JBool error_occurred),
           (''threshold'', JNum 0.7)],
          item_needs_review))"

text \<open>
  The loop \<open>for key in all_keys\<close>, over the keys in the order of iteration; the state is
  \<open>(jsonb_data, needs_review, review_items)\<close>.
\<close>

fun items_loop ::
  "(string \<times> string option) list \<Rightarrow> (string \<times> string option) list \<Rightarrow> string list
     \<Rightarrow> dict \<times> bool \<times> json list \<Rightarrow> dict \<times> bool \<times> json list" where
  "items_loop raw_dict interpreted_dict [] st = st"
| "items_loop raw_dict interpreted_dict (key # keys) (jsonb_data, needs_review, review_items) =
     (let (item_data, item_needs_review) =
            make_item_data (get_text raw_dict key) (get_text interpreted_dict key)
      in items_loop raw_dict interpreted_dict keys
           (dict_set jsonb_data key (JObj item_data),
            (if item_needs_review then True else needs_review),
            review_items @ [JObj (dict_set item_data ''item_name'' (JStr key))]))"

text \<open>\<open>d.update(other)\<close>.\<close>

definition dict_update :: "('k \<times> 'v) list \<Rightarrow> ('k \<times> 'v) list \<Rightarrow> ('k \<times> 'v) list" where
  "dict_update d other = fold (\<lambda>(k, v) acc. dict_set acc k v) other d"

text \<open>The entries of the mirrors \<open>raw_items\<close> and \<open>interpreted_items\<close>.\<close>

fun value_get :: "json \<Rightarrow> string \<Rightarrow> json" where
  "value_get (JObj d) k = get_json d k"
| "value_get v k = JNull"

definition mirror :: "string \<Rightarrow> dict \<Rightarrow> json" where
  "mirror field jsonb_data =
     JList (map (\<lambda>(k, v). JObj [(''item_name'', JStr k), (field, value_get v field)]) jsonb_data)"

text \<open>\<open>item.get("confidence_score", 0)\<close> of a record built by the loop.\<close>

fun confidence_of :: "json \<Rightarrow> real" where
  "confidence_of (JObj d) = (case dict_get d ''confidence_score'' of Some (JNum x) \<Rightarrow> x | _ \<Rightarrow> 0)"
| "confidence_of v = 0"

text \<open>
  \<open>process_extracted_items\<close>. A Python set has no order of its own: \<open>iter\<close> gives the
  order in which the loop visits the elements of a set.
\<close>

definition process_extracted_items ::
  "(string set \<Rightarrow> string list) \<Rightarrow> item list \<Rightarrow> item list \<Rightarrow> exn + (dict \<times> bool \<times> real)" where
  "process_extracted_items iter raw_items interpreted_items =
     (case to_dict ''raw_text'' raw_items [] of
        Inl e \<Rightarrow> Inl e
      | Inr raw_dict \<Rightarrow>
     (case to_dict ''interpreted_text'' interpreted_items [] of
        Inl e \<Rightarrow> Inl e
      | Inr interpreted_dict \<Rightarrow>
          let (jsonb_data, needs_review, review_items) =
                items_loop raw_dict interpreted_dict
                  (iter (all_keys raw_dict interpreted_dict)) ([], False, []);
              unified_data =
                [(''review_items'', JList review_items),
                 (''template_id'', JNull),
                 (''template_name'', JNull),
                 (''raw_items'', mirror ''raw_text'' jsonb_data),
                 (''interpreted_items'', mirror ''interpreted_text'' jsonb_data)];
              average_confidence =
                (if review_items \<noteq> []
                 then sum_list (map confidence_of review_items) / real (length review_items)
                 else 1.0)
          in Inr (dict_update jsonb_data unified_data, needs_review, average_confidence)))"

text \<open>
  The collaborators of one run: the image store (\<open>download_file_from_gcs\<close> returns the
  bytes or \<open>None\<close>, or raises), the outcome of every attempt of the two AI calls, the
  iteration order of sets, and the clock.
\<close>

record env =
  download :: "exn + string option"
  extract_attempt :: "nat \<Rightarrow> item list attempt"
  interpret_attempt :: "item list \<Rightarrow> nat \<Rightarrow> item list attempt"
  set_order :: "string set \<Rightarrow> string list"
  clock :: string

text \<open>
  The test \<open>any(item_data.get("error_occurred", False) for item_data in jsonb_data.values()
  if isinstance(item_data, dict) and "error_occurred" in item_data)\<close>.
\<close>

fun has_error :: "json \<Rightarrow> bool" where
  "has_error (JObj d) = (dict_has d ''error_occurred'' \<and> truthy (get_or d ''error_occurred'' (JBool False)))"
| "has_error v = False"

definition any_error :: "dict \<Rightarrow> bool" where
  "any_error jsonb_data = list_ex has_error (map snd jsonb_data)"

text \<open>
  \<open>run_extraction_task\<close>: the state of the database after the run. Every exception that
  reaches the outer handler ends the run as \<open>FAILED\<close>.
\<close>

definition run_extraction_task :: "env \<Rightarrow> nat \<Rightarrow> string \<Rightarrow> db \<Rightarrow> db" where
  "run_extraction_task e chart_id gcs_uri d0 =
     (let d1 = update_chart_status d0 chart_id PROCESSING None in
      case download e of
        Inl x \<Rightarrow>
          update_chart_status d1 chart_id FAILED (Some (''Error processing chart: '' @ exn_str x))
      | Inr image_data \<Rightarrow>
          if \<not> str_truthy image_data then
            update_chart_status d1 chart_id FAILED
              (Some (''Failed to download image from '' @ gcs_uri))
          else
            (case extract_raw_data_from_image (extract_attempt e) of
               Inl x \<Rightarrow>
                 update_chart_status d1 chart_id FAILED
                   (Some (''Error during raw text extraction: '' @ exn_str x))
             | Inr raw_items0 \<Rightarrow>
                 if raw_items0 = [] then
                   update_chart_status d1 chart_id FAILED
                     (Some ''Failed to extract raw data from image'')
                 else
                   let raw_items =
                         (if length raw_items0 = 0 then default_raw_items else raw_items0);
                       (interpreted_items, interpretation_error) =
                         (case interpret_extracted_data (interpret_attempt e) raw_items of
                            Inl x \<Rightarrow> ([], Some (exn_str x))
                          | Inr its \<Rightarrow> (its, None))
                   in
                   (case process_extracted_items (set_order e) raw_items interpreted_items of
                      Inl x \<Rightarrow>
                        update_chart_status d1 chart_id FAILED
                          (Some (''Error processing chart: '' @ exn_str x))
                    | Inr (jsonb_data, needs_review0, overall_confidence) \<Rightarrow>
                        let (st, msg, nr) =
                              (if str_truthy interpretation_error then
                                 (PARTIAL_SUCCESS,
                                  Some (''Text interpretation failed: '' @ the interpretation_error),
                                  True)
                               else if any_error jsonb_data then
                                 (PARTIAL_SUCCESS,
                                  Some ''Some items failed to process correctly'',
                                  needs_review0)
                               else (COMPLETED, None, needs_review0))
                        in
                        (case create_extracted_data_jsonb (clock e) d1 chart_id jsonb_data
                                (Some overall_confidence) nr of
                           Inl x \<Rightarrow>
                             update_chart_status d1 chart_id FAILED
                               (Some (''Error processing chart: '' @ exn_str x))
                         | Inr d2 \<Rightarrow> update_chart_status d2 chart_id st msg))))"

section \<open>Result reconciler and review state (\<open>app/services/db_service.py\<close>)\<close>

subsection \<open>Python dicts whose keys need not be strings\<close>

text \<open>
  The keys of a JSON document are strings, but the code also builds dicts whose keys are
  values taken from a document. The values that can be keys are null, the booleans, the
  numbers and the strings; a list or a dict is not hashable. Two keys are the same key
  when Python finds them equal: \<open>True\<close> is the number 1 and \<open>False\<close> the number 0. An
  assignment to a key that is in the dict replaces the value and keeps the key object that
  was inserted first.
\<close>

datatype key = KNull | KBool bool | KNum real | KStr string

fun as_key :: "json \<Rightarrow> exn + key" where
  "as_key JNull = Inr KNull"
| "as_key (JBool b) = Inr (KBool b)"
| "as_key (JNum x) = Inr (KNum x)"
| "as_key (JStr s) = Inr (KStr s)"
| "as_key (JList xs) = Inl (TypeError (''unhashable type: '' @ [CHR 0x27] @ ''list'' @ [CHR 0x27]))"
| "as_key (JObj d) = Inl (TypeError (''unhashable type: '' @ [CHR 0x27] @ ''dict'' @ [CHR 0x27]))"

fun key_norm :: "key \<Rightarrow> key" where
  "key_norm (KBool b) = KNum (if b then 1 else 0)"
| "key_norm k = k"

text \<open>\<open>d[k] = v\<close> and \<open>k in d\<close>.\<close>

fun py_set :: "(key \<times> 'v) list \<Rightarrow> key \<Rightarrow> 'v \<Rightarrow> (key \<times> 'v) list" where
  "py_set [] k v = [(k, v)]"
| "py_set (p # ps) k v =
     (if key_norm (fst p) = key_norm k then (fst p, v) # ps else p # py_set ps k v)"

definition py_has :: "(key \<times> 'v) list \<Rightarrow> key \<Rightarrow> bool" where
  "py_has d k = list_ex (\<lambda>p. key_norm (fst p) = key_norm k) d"

text \<open>
  When such a dict is stored in the JSON column, \<open>json.dumps\<close> writes a key that is not a
  string as \<open>null\<close>, \<open>true\<close>, \<open>false\<close> or the numeral of the number (\<open>str\<close> of an
  \<open>int\<close>, \<open>repr\<close> of a \<open>float\<close>). The numbers of the model do not tell an \<open>int\<close> from a
  \<open>float\<close>, so the numeral of a number is a parameter, \<open>num_str\<close>. When two keys are
  written as the same string, the document read back has the value of the last one.
\<close>

fun json_key :: "(real \<Rightarrow> string) \<Rightarrow> key \<Rightarrow> string" where
  "json_key num_str KNull = ''null''"
| "json_key num_str (KBool b) = (if b then ''true'' else ''false'')"
| "json_key num_str (KNum x) = num_str x"
| "json_key num_str (KStr s) = s"

definition json_object :: "(real \<Rightarrow> string) \<Rightarrow> (key \<times> json) list \<Rightarrow> dict" where
  "json_object num_str d = fold (\<lambda>(k, v) acc. dict_set acc (json_key num_str k) v) d []"

subsection \<open>Conversion of the array layout into the map layout\<close>

text \<open>
  \<open>convert_to_standard_format\<close>, the loop over \<open>review_items\<close>: every entry that is a
  dict with an \<open>item_name\<close> becomes the entry of \<open>standard_format\<close> under that name,
  without its \<open>item_name\<close>. A name that is a list or a dict cannot be a key: the
  assignment raises \<open>TypeError\<close>, which the function does not catch.
\<close>

fun standard_items :: "json list \<Rightarrow> (key \<times> json) list \<Rightarrow> exn + (key \<times> json) list" where
  "standard_items [] standard_format = Inr standard_format"
| "standard_items (JObj item # items) standard_format =
     (case dict_get item ''item_name'' of
        None \<Rightarrow> standard_items items standard_format
      | Some item_name \<Rightarrow>
          (case as_key item_name of
             Inl e \<Rightarrow> Inl e
           | Inr name \<Rightarrow>
               standard_items items
                 (py_set standard_format name
                    (JObj (filter (\<lambda>(k, v). k \<noteq> ''item_name'') item)))))"
| "standard_items (other # items) standard_format = standard_items items standard_format"

text \<open>The second loop: the other top-level keys are kept unless a field has taken the name.\<close>

definition keep_metadata :: "dict \<Rightarrow> (key \<times> json) list \<Rightarrow> (key \<times> json) list" where
  "keep_metadata doc standard_format =
     fold (\<lambda>(key, v) acc.
             if key \<noteq> ''review_items'' \<and> \<not> py_has acc (KStr key)
             then py_set acc (KStr key) v else acc)
          doc standard_format"

text \<open>
  The function: the answer and the database after the call. The new document is what the
  row holds once it has been committed and read again (\<open>db.refresh\<close>).
\<close>

definition convert_to_standard_format ::
  "(real \<Rightarrow> string) \<Rightarrow> db \<Rightarrow> nat \<Rightarrow> exn + (bool \<times> db)" where
  "convert_to_standard_format num_str d chart_id =
     (case extracted d chart_id of
        None \<Rightarrow> Inr (False, d)
      | Some extracted_data \<Rightarrow>
          (case dict_get (data extracted_data) ''review_items'' of
             Some (JList review_items) \<Rightarrow>
               (case standard_items review_items [] of
                  Inl e \<Rightarrow> Inl e
                | Inr standard_format \<Rightarrow>
                    Inr (True,
                         d\<lparr>extracted := (extracted d)(chart_id \<mapsto>
                              extracted_data\<lparr>data :=
                                json_object num_str
                                  (keep_metadata (data extracted_data) standard_format)\<rparr>)\<rparr>))
           | _ \<Rightarrow> Inr (True, d)))"

subsection \<open>The unified view and the review items\<close>

text \<open>Values that can be members of a Python set.\<close>

fun hashable :: "json \<Rightarrow> bool" where
  "hashable (JList xs) = False"
| "hashable (JObj d) = False"
| "hashable v = True"















text \<open>
  The order \<open>>\<close> of Python on the values of \<open>reviewed_at\<close>: two strings compare
  lexicographically, two numbers by value, and a string against a number raises. (Two
  lists, which Python compares element by element, are reported as an error too.)
\<close>

fun num_of :: "json \<Rightarrow> real option" where
  "num_of (JNum x) = Some x"
| "num_of (JBool b) = Some (if b then 1 else 0)"
| "num_of v = None"

fun py_gt :: "json \<Rightarrow> json \<Rightarrow> exn + bool" where
  "py_gt (JStr a) (JStr b) = Inr (b < a)"
| "py_gt a b =
     (case (num_of a, num_of b) of
        (Some x, Some y) \<Rightarrow> Inr (y < x)
      | _ \<Rightarrow> Inl (TypeError ''> not supported between these instances''))"

text \<open>
  \<open>max(items, key=lambda x: x.get("reviewed_at", ""))\<close> on a non-empty list: the running
  maximum is replaced only by a strictly greater item.
\<close>

fun max_by_reviewed_at :: "dict \<Rightarrow> dict list \<Rightarrow> exn + dict" where
  "max_by_reviewed_at best [] = Inr best"
| "max_by_reviewed_at best (x # xs) =
     (case py_gt (get_or x ''reviewed_at'' (JStr [])) (get_or best ''reviewed_at'' (JStr [])) of
        Inl e \<Rightarrow> Inl e
      | Inr True \<Rightarrow> max_by_reviewed_at x xs
      | Inr False \<Rightarrow> max_by_reviewed_at best xs)"

text \<open>
  The aggregate computed by \<open>update_chart_review_status_after_item_update\<close> from the list
  of review items: \<open>(needs_review, reviewed_by)\<close>.
\<close>

definition recompute_aggregate :: "dict list \<Rightarrow> exn + (bool \<times> json)" where
  "recompute_aggregate review_items =
     (let needs_review =
            list_ex (\<lambda>item. truthy (get_or item ''needs_review'' (JBool False))) review_items
      in if \<not> needs_review \<and> review_items \<noteq> [] then
           (case filter (\<lambda>item. truthy (get_json item ''reviewed_at'')) review_items of
              [] \<Rightarrow> Inr (needs_review, JNull)
            | x # xs \<Rightarrow>
                (case max_by_reviewed_at x xs of
                   Inl e \<Rightarrow> Inl e
                 | Inr latest_item \<Rightarrow>
                     Inr (needs_review,
                          if latest_item \<noteq> [] then get_json latest_item ''reviewed_by''
                          else JNull)))
         else Inr (needs_review, JNull))"










section \<open>Single-field review update (\<open>app/routers/review.py\<close>)\<close>









section \<open>Extraction with a template (\<open>app/services/chart_service.py\<close>)\<close>

text \<open>
  A template item is the dict that \<open>template_service.get_template_by_id\<close> builds from a
  row of \<open>extraction_template_items\<close>; its thresholds are numbers or null.
  \<open>next((item for item in template_items if item['name'] == item_name), None)\<close>: an item
  without \<open>name\<close> that is reached raises.
\<close>

fun find_template_item :: "dict list \<Rightarrow> string \<Rightarrow> exn + dict option" where
  "find_template_item [] item_name = Inr None"
| "find_template_item (item # items) item_name =
     (case dict_get item ''name'' of
        None \<Rightarrow> Inl (KeyError ''name'')
      | Some n \<Rightarrow> if n = JStr item_name then Inr (Some item)
                  else find_template_item items item_name)"

text \<open>
  The two thresholds of a field, from the template item found for it (lines 203 to 209):
  the item's own thresholds, the values 0.85 and 0.90 when there is no item, and the
  item's \<open>confidence_threshold\<close> in the place of a threshold that is falsy.
\<close>

definition thresholds_of :: "dict option \<Rightarrow> json \<times> json" where
  "thresholds_of template_item =
     (let present = (case template_item of None \<Rightarrow> False | Some ti \<Rightarrow> ti \<noteq> []);
          ti = (case template_item of None \<Rightarrow> [] | Some ti \<Rightarrow> ti);
          text0 = (if present then get_or ti ''text_similarity_threshold'' (JNum 0.85)
                   else JNum 0.85);
          vector0 = (if present then get_or ti ''vector_similarity_threshold'' (JNum 0.90)
                     else JNum 0.90);
          text_similarity_threshold =
            (if present \<and> \<not> truthy (get_json ti ''text_similarity_threshold'')
             then get_or ti ''confidence_threshold'' (JNum 0.85) else text0);
          vector_similarity_threshold =
            (if present \<and> \<not> truthy (get_json ti ''vector_similarity_threshold'')
             then get_or ti ''confidence_threshold'' (JNum 0.90) else vector0)
      in (text_similarity_threshold, vector_similarity_threshold))"

text \<open>\<open>score < threshold\<close> for a float and a JSON value.\<close>

fun score_below :: "real \<Rightarrow> json \<Rightarrow> exn + bool" where
  "score_below x (JNum t) = Inr (x < t)"
| "score_below x (JBool b) = Inr (x < (if b then 1 else 0))"
| "score_below x v = Inl (TypeError ''< not supported between these instances'')"

text \<open>
  The review decision of lines 229 to 232; the second comparison is made only when the
  first is false.
\<close>

definition threshold_decision :: "real \<Rightarrow> real \<Rightarrow> json \<Rightarrow> json \<Rightarrow> exn + bool" where
  "threshold_decision text_score vector_score text_threshold vector_threshold =
     (case score_below text_score text_threshold of
        Inl e \<Rightarrow> Inl e
      | Inr True \<Rightarrow> Inr True
      | Inr False \<Rightarrow> score_below vector_score vector_threshold)"

text \<open>
  The body of the loop of \<open>process_chart_with_template\<close> for one field, from its name and
  its two texts: the review item and the flag \<open>item_needs_review\<close>.
\<close>

definition template_review_item ::
  "dict list \<Rightarrow> string \<Rightarrow> string option \<Rightarrow> string option \<Rightarrow> exn + (dict \<times> bool)" where
  "template_review_item template_items item_name raw_text interpreted_text =
     (case find_template_item template_items item_name of
        Inl e \<Rightarrow> Inl e
      | Inr template_item \<Rightarrow>
          let (text_similarity_threshold, vector_similarity_threshold) =
                thresholds_of template_item;
              error_occurred = (raw_text = None \<or> interpreted_text = None);
              text_similarity_score =
                (if \<not> error_occurred
                 then calculate_levenshtein_similarity raw_text interpreted_text else 0.0);
              vector_similarity_score =
                (if \<not> error_occurred
                 then calculate_semantic_similarity raw_text interpreted_text else 0.0)
          in case threshold_decision text_similarity_score vector_similarity_score
                    text_similarity_threshold vector_similarity_threshold of
               Inl e \<Rightarrow> Inl e
             | Inr item_needs_review \<Rightarrow>
                 Inr ([(''item_name'', JStr item_name),
                       (''raw_text'', opt_str raw_text),
                       (''interpreted_text'', opt_str interpreted_text),
                       (''text_similarity_score'', JNum text_similarity_score),
                       (''vector_similarity_score'', JNum vector_similarity_score),
                       (''text_similarity_threshold'', text_similarity_threshold),
                       (''vector_similarity_threshold'', vector_similarity_threshold),
                       (''confidence_score'', JNum vector_similarity_score),
                       (''similarity_score'', JNum text_similarity_score),
                       (''threshold'', vector_similarity_threshold),
                       (''needs_review'', JBool item_needs_review),
                       (''review_comment'', JNull),
                       (''reviewed_by'', JNull),
                       (''reviewed_at'', JNull),
                       (''error_occurred'', JBool error_occurred)],
                      item_needs_review))"

section \<open>Notions used to state the properties\<close>

text \<open>
  The top-level keys of a document that the readers of \<open>db_service\<close> never take for a
  field name (\<open>get_review_items\<close>, \<open>get_all_items_unified\<close>).
\<close>

definition special_keys :: "string list" where
  "special_keys =
     [''raw_items'', ''interpreted_items'', ''template_id'', ''template_name'', ''review_items'']"

text \<open>\<open>iter\<close> visits every element of the set \<open>S\<close> once.\<close>

definition iterates :: "(string set \<Rightarrow> string list) \<Rightarrow> string set \<Rightarrow> bool" where
  "iterates iter S = (distinct (iter S) \<and> set (iter S) = S)"

text \<open>The record, the review flag and the \<open>review_items\<close> entry that the loop builds for a key.\<close>

definition item_of ::
  "(string \<times> string option) list \<Rightarrow> (string \<times> string option) list \<Rightarrow> string \<Rightarrow> dict" where
  "item_of rd idc k = fst (make_item_data (get_text rd k) (get_text idc k))"

definition flag_of ::
  "(string \<times> string option) list \<Rightarrow> (string \<times> string option) list \<Rightarrow> string \<Rightarrow> bool" where
  "flag_of rd idc k = snd (make_item_data (get_text rd k) (get_text idc k))"

definition review_item_of ::
  "(string \<times> string option) list \<Rightarrow> (string \<times> string option) list \<Rightarrow> string \<Rightarrow> json" where
  "review_item_of rd idc k = JObj (item_of rd idc k @ [(''item_name'', JStr k)])"

text \<open>Concrete inputs: a chart as \<open>create_chart_record\<close> leaves it, a database, collaborators.\<close>

definition fixed_order :: "string list \<Rightarrow> string set \<Rightarrow> string list" where
  "fixed_order ks S = ks"

definition pending_chart :: Chart where
  "pending_chart = \<lparr>c_status = PENDING, c_error_message = None,
     c_overall_confidence_score = None, c_needs_review = False,
     c_reviewed_by = JNull, c_reviewed_at = None\<rparr>"

definition db0 :: db where
  "db0 = \<lparr>charts = [1 \<mapsto> pending_chart], extracted = Map.empty, next_id = 1\<rparr>"

definition env_of :: "item list \<Rightarrow> item list attempt \<Rightarrow> string list \<Rightarrow> env" where
  "env_of raw stage2 order =
     \<lparr>download = Inr (Some ''image''),
      extract_attempt = (\<lambda>n. Returns raw),
      interpret_attempt = (\<lambda>its n. stage2),
      set_order = fixed_order order,
      clock = ''2025-01-01T00:00:00''\<rparr>"

text \<open>A database that holds one processed chart and its document.\<close>

definition stored :: "int \<Rightarrow> dict \<Rightarrow> db" where
  "stored row_id doc =
     \<lparr>charts = [1 \<mapsto> pending_chart\<lparr>c_status := COMPLETED, c_needs_review := True\<rparr>],
      extracted = [1 \<mapsto> \<lparr>ed_id = row_id, data = doc\<rparr>],
      next_id = row_id + 1\<rparr>"

fun is_dict :: "json \<Rightarrow> bool" where
  "is_dict (JObj d) = True"
| "is_dict v = False"

text \<open>
  Review items: the record is flagged for review; it has a \<open>reviewed_at\<close> (a truthy one);
  the string of its \<open>reviewed_at\<close>; every \<open>reviewed_at\<close> of a list is a string or null, as
  the writers of the repository leave it (an ISO-8601 string, or \<open>None\<close>).
\<close>

definition flagged :: "dict \<Rightarrow> bool" where
  "flagged r = truthy (get_or r ''needs_review'' (JBool False))"

definition has_reviewed_at :: "dict \<Rightarrow> bool" where
  "has_reviewed_at r = truthy (get_json r ''reviewed_at'')"

definition reviewed_at_str :: "dict \<Rightarrow> string" where
  "reviewed_at_str r = (case get_json r ''reviewed_at'' of JStr s \<Rightarrow> s | _ \<Rightarrow> [])"

definition timestamps_ok :: "dict list \<Rightarrow> bool" where
  "timestamps_ok rs =
     list_all (\<lambda>r. get_json r ''reviewed_at'' = JNull
                  \<or> get_json r ''reviewed_at'' = JStr (reviewed_at_str r)) rs"

text \<open>
  The reviewer as the specification words it: the \<open>reviewed_by\<close> of the record with the
  latest \<open>reviewed_at\<close>, ties broken by last-seen order. This definition follows the
  specification, not the source; it is compared with \<open>recompute_aggregate\<close> below.
\<close>

fun latest_last_seen :: "dict \<Rightarrow> dict list \<Rightarrow> dict" where
  "latest_last_seen best [] = best"
| "latest_last_seen best (x # xs) =
     (if reviewed_at_str best \<le> reviewed_at_str x then latest_last_seen x xs
      else latest_last_seen best xs)"

definition spec_reviewed_by :: "dict list \<Rightarrow> json" where
  "spec_reviewed_by rs =
     (case filter has_reviewed_at rs of
        [] \<Rightarrow> JNull
      | x # xs \<Rightarrow> get_json (latest_last_seen x xs) ''reviewed_by'')"

text \<open>Two records reviewed at the same instant.\<close>

definition alice :: dict where
  "alice = [(''item_name'', JStr ''a''), (''needs_review'', JBool False),
            (''reviewed_by'', JStr ''alice''), (''reviewed_at'', JStr ''2025-06-01T10:00:00'')]"

definition bob :: dict where
  "bob = [(''item_name'', JStr ''b''), (''needs_review'', JBool False),
          (''reviewed_by'', JStr ''bob''), (''reviewed_at'', JStr ''2025-06-01T10:00:00'')]"






definition no_list_entry :: "key \<times> json \<Rightarrow> bool" where
  "no_list_entry p = (is_dict (snd p) \<or> (\<exists>s. fst p = KStr s \<and> s \<noteq> ''review_items''))"

definition db_after :: "exn + (bool \<times> db) \<Rightarrow> db \<Rightarrow> db" where
  "db_after outcome d = (case outcome of Inl e \<Rightarrow> d | Inr (b, d') \<Rightarrow> d')"

definition numeral_one :: "real \<Rightarrow> string" where
  "numeral_one x = ''1''"



section \<open>Properties of the scorer\<close>

text \<open>
  C2. \<open>should_review\<close> answers true exactly when the error flag is set, or one of the two
  scores is absent, or the text score is strictly below the text threshold, or the vector
  score is strictly below the vector threshold; the thresholds are the module constants
  0.8 and 0.7. A field is trusted only when both scores reach their threshold.
\<close>

theorem should_review_iff:
  "should_review text_score vector_score error_occurred =
     (error_occurred \<or> text_score = None \<or> vector_score = None
      \<or> (\<exists>t. text_score = Some t \<and> t < SIMILARITY_THRESHOLD)
      \<or> (\<exists>v. vector_score = Some v \<and> v < CONFIDENCE_THRESHOLD))
   \<and> SIMILARITY_THRESHOLD = 0.8 \<and> CONFIDENCE_THRESHOLD = 0.7"
  by (cases text_score; cases vector_score)
     (auto simp: should_review_def SIMILARITY_THRESHOLD_def CONFIDENCE_THRESHOLD_def)


section \<open>Properties of the orchestrator\<close>

subsection \<open>Dictionaries and the loop over the keys\<close>

lemma dict_get_set: "dict_get (dict_set d k v) k' = (if k' = k then Some v else dict_get d k')"
  by (induction d) (auto simp: dict_get_def)

lemma dict_set_fresh: "k \<notin> fst ` set d \<Longrightarrow> dict_set d k v = d @ [(k, v)]"
  by (induction d) auto

lemma fold_dict_set_fresh:
  "distinct ks \<Longrightarrow> set ks \<inter> fst ` set d = {} \<Longrightarrow>
   fold (\<lambda>k acc. dict_set acc k (f k)) ks d = d @ map (\<lambda>k. (k, f k)) ks"
proof (induction ks arbitrary: d)
  case Nil
  then show ?case by simp
next
  case (Cons k ks)
  have fresh: "k \<notin> fst ` set d" using Cons.prems by auto
  have "set ks \<inter> fst ` set (d @ [(k, f k)]) = {}" using Cons.prems by auto
  with Cons show ?case by (simp add: dict_set_fresh [OF fresh])
qed

lemma dict_get_map_keys:
  "dict_get (map (\<lambda>k. (k, f k)) ks) k = (if k \<in> set ks then Some (f k) else None)"
  by (induction ks) (auto simp: dict_get_def)

lemma item_name_appended:
  "dict_set (item_of rd idc k) ''item_name'' v = item_of rd idc k @ [(''item_name'', v)]"
  by (simp add: item_of_def make_item_data_def Let_def)

lemma items_loop_eq:
  "items_loop rd idc ks (jd, nr, ris) =
     (fold (\<lambda>k acc. dict_set acc k (JObj (item_of rd idc k))) ks jd,
      nr \<or> list_ex (flag_of rd idc) ks,
      ris @ map (review_item_of rd idc) ks)"
  by (induction ks arbitrary: jd nr ris)
     (auto simp: item_of_def flag_of_def review_item_of_def make_item_data_def Let_def)

lemma items_loop_distinct:
  assumes "distinct ks"
  shows "items_loop rd idc ks ([], False, []) =
     (map (\<lambda>k. (k, JObj (item_of rd idc k))) ks,
      list_ex (flag_of rd idc) ks,
      map (review_item_of rd idc) ks)"
  using fold_dict_set_fresh [OF assms, of "[]" "\<lambda>k. JObj (item_of rd idc k)"]
  by (simp add: items_loop_eq)

lemma mirror_map:
  "mirror field (map (\<lambda>k. (k, JObj (item_of rd idc k))) ks) =
   JList (map (\<lambda>k. JObj [(''item_name'', JStr k), (field, get_json (item_of rd idc k) field)]) ks)"
  by (simp add: mirror_def comp_def)

lemma review_item_fields:
  "value_get (review_item_of rd idc k) ''item_name'' = JStr k"
  "value_get (review_item_of rd idc k) ''raw_text'' = get_json (item_of rd idc k) ''raw_text''"
  "value_get (review_item_of rd idc k) ''interpreted_text'' =
     get_json (item_of rd idc k) ''interpreted_text''"
  by (simp_all add: review_item_of_def item_of_def make_item_data_def Let_def get_json_def
        get_or_def dict_get_def)

text \<open>The document built by \<open>process_extracted_items\<close>.\<close>

lemma process_extracted_items_result:
  assumes rd: "to_dict ''raw_text'' raw_items [] = Inr rd"
      and idc: "to_dict ''interpreted_text'' interpreted_items [] = Inr idc"
      and it: "iterates iter (all_keys rd idc)"
  shows "process_extracted_items iter raw_items interpreted_items =
     Inr (dict_update (map (\<lambda>k. (k, JObj (item_of rd idc k))) (iter (all_keys rd idc)))
            [(''review_items'', JList (map (review_item_of rd idc) (iter (all_keys rd idc)))),
             (''template_id'', JNull),
             (''template_name'', JNull),
             (''raw_items'', mirror ''raw_text''
                (map (\<lambda>k. (k, JObj (item_of rd idc k))) (iter (all_keys rd idc)))),
             (''interpreted_items'', mirror ''interpreted_text''
                (map (\<lambda>k. (k, JObj (item_of rd idc k))) (iter (all_keys rd idc))))],
          list_ex (flag_of rd idc) (iter (all_keys rd idc)),
          if iter (all_keys rd idc) \<noteq> []
          then sum_list (map confidence_of (map (review_item_of rd idc) (iter (all_keys rd idc))))
               / real (length (iter (all_keys rd idc)))
          else 1.0)"
proof -
  have d: "distinct (iter (all_keys rd idc))" using it by (simp add: iterates_def)
  show ?thesis
    by (simp add: process_extracted_items_def rd idc items_loop_distinct [OF d])
qed

lemma dict_update_unified_other:
  "k \<notin> set special_keys \<Longrightarrow>
   dict_get (dict_update jd [(''review_items'', a), (''template_id'', b), (''template_name'', c),
                             (''raw_items'', d), (''interpreted_items'', e)]) k = dict_get jd k"
  by (auto simp: dict_update_def dict_get_set special_keys_def)

lemma make_item_data_degraded:
  "make_item_data raw None =
     ([(''raw_text'', opt_str raw), (''interpreted_text'', opt_str raw),
       (''similarity_score'', JNum 0), (''confidence_score'', JNum 0),
       (''needs_review'', JBool True), (''review_comment'', JNull), (''reviewed_by'', JNull),
       (''reviewed_at'', JNull), (''error_occurred'', JBool True), (''threshold'', JNum 0.7)],
      True)"
  by (cases raw) (simp_all add: make_item_data_def should_review_def)

lemma get_text_empty: "get_text [] k = None"
  by (simp add: get_text_def dict_get_def)

lemma to_dict_names:
  "to_dict field its acc = Inr r \<Longrightarrow> \<not> list_ex (\<lambda>it. \<not> dict_has it ''item_name'') its"
  by (induction its arbitrary: acc) (auto simp: dict_has_def dict_get_def split: option.splits)

lemma degraded_fields:
  "value_get (review_item_of rd [] k) ''error_occurred'' = JBool True"
  "value_get (review_item_of rd [] k) ''needs_review'' = JBool True"
  "value_get (review_item_of rd [] k) ''raw_text'' = opt_str (get_text rd k)"
  "value_get (review_item_of rd [] k) ''interpreted_text'' = opt_str (get_text rd k)"
  "value_get (review_item_of rd [] k) ''similarity_score'' = JNum 0"
  "value_get (review_item_of rd [] k) ''confidence_score'' = JNum 0"
  "flag_of rd [] k"
  "has_error (JObj (item_of rd [] k))"
  by (simp_all add: review_item_of_def item_of_def flag_of_def get_text_empty
        make_item_data_degraded get_json_def get_or_def dict_get_def dict_has_def)

lemma any_errorI: "(k, v) \<in> set d \<Longrightarrow> has_error v \<Longrightarrow> any_error d"
  by (force simp: any_error_def list_ex_iff)


lemma process_extracted_items_defaults:
  "iterates iter (set default_keys) \<Longrightarrow>
   \<exists>doc nr avg. process_extracted_items iter [] [] = Inr (doc, nr, avg)
     \<and> dict_get doc ''review_items'' = Some (JList (map (review_item_of [] []) (iter (set default_keys))))"
  using process_extracted_items_result [of "[]" "[]" "[]" "[]" iter]
  by (simp add: all_keys_def dict_update_def dict_get_set)

subsection \<open>A run whose interpretation stage fails\<close>

lemma dict_set_nonempty: "dict_set d k v \<noteq> []"
  by (cases d) auto

lemma to_dict_nonempty:
  "to_dict field its acc = Inr r \<Longrightarrow> its \<noteq> [] \<or> acc \<noteq> [] \<Longrightarrow> r \<noteq> []"
  by (induction its arbitrary: acc) (auto simp: dict_set_nonempty split: option.splits)

lemma retry_loop_last:
  "\<forall>n\<le>m. \<exists>x. attempt n = Raises x \<Longrightarrow> attempt m = Raises y \<Longrightarrow> r \<le> m
   \<Longrightarrow> retry_loop name m attempt r = Inl y"
proof (induction name m attempt r rule: retry_loop.induct)
  case (1 name max_retries attempt retries)
  from 1(2,4) obtain x where x: "attempt retries = Raises x" by blast
  show ?case
  proof (cases "retries + 1 \<le> max_retries")
    case True
    with 1 x show ?thesis by (subst retry_loop.simps) auto
  next
    case False
    with 1(4) have "retries = max_retries" by simp
    with 1(3) x False show ?thesis by (subst retry_loop.simps) auto
  qed
qed

lemma dict_set_keys: "fst ` set (dict_set d k v) = insert k (fst ` set d)"
  by (induction d) auto

lemma dict_set_distinct: "distinct (map fst d) \<Longrightarrow> distinct (map fst (dict_set d k v))"
proof (induction d)
  case Nil
  then show ?case by simp
next
  case (Cons p d)
  then show ?case using dict_set_keys [of d k v] by (auto simp: image_iff)
qed

lemma dict_update_keys: "fst ` set (dict_update d other) = fst ` set d \<union> fst ` set other"
  unfolding dict_update_def
  by (induction other arbitrary: d) (auto simp: dict_set_keys split: prod.splits)

lemma dict_update_distinct:
  "distinct (map fst d) \<Longrightarrow> distinct (map fst (dict_update d other))"
  unfolding dict_update_def
  by (induction other arbitrary: d) (auto simp: dict_set_distinct split: prod.splits)

lemma mem_dict_get: "distinct (map fst d) \<Longrightarrow> (k, v) \<in> set d \<Longrightarrow> dict_get d k = Some v"
  by (simp add: dict_get_def)

lemma reserved_names_no_error:
  assumes ks: "set ks \<subseteq> set special_keys" and d: "distinct ks"
  shows "\<not> any_error (dict_update (map (\<lambda>k. (k, f k)) ks)
            [(''review_items'', JList a), (''template_id'', JNull), (''template_name'', JNull),
             (''raw_items'', JList b), (''interpreted_items'', JList c)])"
proof
  let ?u = "[(''review_items'', JList a), (''template_id'', JNull), (''template_name'', JNull),
             (''raw_items'', JList b), (''interpreted_items'', JList c)]"
  let ?jd = "map (\<lambda>k. (k, f k)) ks"
  let ?doc = "dict_update ?jd ?u"
  assume "any_error ?doc"
  then obtain k v where kv: "(k, v) \<in> set ?doc" "has_error v"
    by (auto simp: any_error_def list_ex_iff)
  have "distinct (map fst ?jd)" using d by (simp add: comp_def)
  then have "distinct (map fst ?doc)" by (rule dict_update_distinct)
  then have g: "dict_get ?doc k = Some v" using kv(1) by (rule mem_dict_get)
  have "k \<in> fst ` set ?doc" using kv(1) by force
  then have "k \<in> set special_keys"
    using ks by (auto simp: dict_update_keys special_keys_def)
  then have "dict_get ?doc k \<in> {Some (JList a), Some JNull, Some (JList b), Some (JList c)}"
    by (auto simp: special_keys_def dict_update_def dict_get_set)
  with g kv(2) show False by auto
qed


lemma create_with_chart:
  "charts d chart_id = Some c \<Longrightarrow>
   create_extracted_data_jsonb now d chart_id doc score nr =
     Inr (update_chart_review_status now
            (d\<lparr>extracted := (extracted d)(chart_id \<mapsto> \<lparr>ed_id = next_id d, data = doc\<rparr>),
               next_id := next_id d + 1\<rparr>) chart_id nr score JNull)"
  by (simp add: create_extracted_data_jsonb_def)

text \<open>
  C1. A run on an existing chart in which stage 1 returned a non-empty list of named items
  and every attempt of stage 2 raised (four attempts: the first and three retries; \<open>x\<close>
  is the exception of the last one). The handler keeps the message \<open>str(x)\<close>, the
  document is built from the raw items alone and is stored: \<open>review_items\<close> has one
  record per field name, each with the raw text standing in for the interpreted text, both
  scores 0.0, \<open>error_occurred\<close> true and \<open>needs_review\<close> true, and the chart's
  \<open>needs_review\<close> is true. The status is \<open>PARTIAL_SUCCESS\<close> when the message is not
  empty or some field name is not one of the reserved top-level keys; it is \<open>COMPLETED\<close>
  when the message is empty and every field name is reserved, because the test
  \<open>if interpretation_error:\<close> is a test of the truthiness of the message, and the scan of
  the document for records with \<open>error_occurred\<close> finds none once
  \<open>jsonb_data.update(unified_data)\<close> has overwritten them. The run never ends as
  \<open>FAILED\<close>.
\<close>

theorem stage2_exhausted_run:
  assumes chart: "charts d0 chart_id = Some c0"
      and img: "download e = Inr (Some bytes)" "bytes \<noteq> []"
      and s1: "extract_raw_data_from_image (extract_attempt e) = Inr raw_items"
              "raw_items \<noteq> []"
      and rd: "to_dict ''raw_text'' raw_items [] = Inr rd"
      and s2: "\<forall>n\<le>3. \<exists>y. interpret_attempt e raw_items n = Raises y"
      and last: "interpret_attempt e raw_items 3 = Raises x"
      and it: "iterates (set_order e) (all_keys rd [])"
  shows "\<exists>c ed ris.
      interpret_extracted_data (interpret_attempt e) raw_items = Inl x
    \<and> charts (run_extraction_task e chart_id gcs_uri d0) chart_id = Some c
    \<and> c_status c =
          (if exn_str x \<noteq> [] \<or> (\<exists>k \<in> all_keys rd []. k \<notin> set special_keys)
           then PARTIAL_SUCCESS else COMPLETED)
    \<and> c_needs_review c
    \<and> extracted (run_extraction_task e chart_id gcs_uri d0) chart_id = Some ed
    \<and> dict_get (data ed) ''review_items'' = Some (JList ris)
    \<and> map (\<lambda>r. value_get r ''item_name'') ris = map JStr (set_order e (all_keys rd []))
    \<and> map (\<lambda>r. value_get r ''raw_text'') ris
        = map (\<lambda>k. opt_str (get_text rd k)) (set_order e (all_keys rd []))
    \<and> (\<forall>r \<in> set ris.
          value_get r ''interpreted_text'' = value_get r ''raw_text''
        \<and> value_get r ''similarity_score'' = JNum 0
        \<and> value_get r ''confidence_score'' = JNum 0
        \<and> value_get r ''error_occurred'' = JBool True
        \<and> value_get r ''needs_review'' = JBool True)"
proof -
  let ?ks = "set_order e (all_keys rd [])"
  let ?jd = "map (\<lambda>k. (k, JObj (item_of rd [] k))) ?ks"
  let ?ris = "map (review_item_of rd []) ?ks"
  let ?doc = "dict_update ?jd
            [(''review_items'', JList ?ris),
             (''template_id'', JNull),
             (''template_name'', JNull),
             (''raw_items'', mirror ''raw_text'' ?jd),
             (''interpreted_items'', mirror ''interpreted_text'' ?jd)]"
  let ?named = "\<exists>k \<in> all_keys rd []. k \<notin> set special_keys"
  let ?st = "if exn_str x \<noteq> [] \<or> ?named then PARTIAL_SUCCESS else COMPLETED"
  let ?msg = "if exn_str x \<noteq> [] then Some (''Text interpretation failed: '' @ exn_str x)
              else if ?named then Some ''Some items failed to process correctly'' else None"
  let ?avg = "sum_list (map confidence_of ?ris) / real (length ?ks)"
  have ks: "set ?ks = all_keys rd []" and dks: "distinct ?ks"
    using it by (simp_all add: iterates_def)
  have "rd \<noteq> []" using to_dict_nonempty [OF rd] s1(2) by simp
  then have "all_keys rd [] \<noteq> {}" by (simp add: all_keys_def)
  with ks have ne: "?ks \<noteq> []" by auto
  then obtain k0 where k0: "k0 \<in> set ?ks" by (cases ?ks) auto
  have flag: "list_ex (flag_of rd []) ?ks"
    using k0 by (auto simp: list_ex_iff degraded_fields)
  have "\<not> list_ex (\<lambda>it. \<not> dict_has it ''item_name'') raw_items"
    using to_dict_names [OF rd] .
  moreover have "retry_loop ''interpret_extracted_data'' 3 (interpret_attempt e raw_items) 0 = Inl x"
    using retry_loop_last [OF s2 last, of 0] by simp
  ultimately have interp: "interpret_extracted_data (interpret_attempt e) raw_items = Inl x"
    by (simp add: interpret_extracted_data_def)
  have idc: "to_dict ''interpreted_text'' [] [] = Inr []" by simp
  have proc: "process_extracted_items (set_order e) raw_items [] = Inr (?doc, True, ?avg)"
    using process_extracted_items_result [OF rd idc it] flag ne by simp
  have err: "any_error ?doc = ?named"
  proof (cases ?named)
    case True
    then obtain k where k: "k \<in> set ?ks" "k \<notin> set special_keys" using ks by blast
    have "dict_get ?doc k = Some (JObj (item_of rd [] k))"
      using k by (simp add: dict_update_unified_other dict_get_map_keys)
    then have "(k, JObj (item_of rd [] k)) \<in> set ?doc"
      by (simp add: dict_get_def map_of_SomeD)
    then have "any_error ?doc"
      by (rule any_errorI) (rule degraded_fields)
    with True show ?thesis by simp
  next
    case False
    then have sub: "set ?ks \<subseteq> set special_keys" using ks by blast
    have "\<not> any_error ?doc"
      unfolding mirror_def by (rule reserved_names_no_error [OF sub dks])
    with False show ?thesis by simp
  qed
  have rev: "dict_get ?doc ''review_items'' = Some (JList ?ris)"
    by (simp add: dict_update_def dict_get_set)
  have c1: "charts (update_chart_status d0 chart_id PROCESSING None) chart_id
      = Some (c0\<lparr>c_status := PROCESSING\<rparr>)"
    using chart by (simp add: update_chart_status_def)
  have run: "run_extraction_task e chart_id gcs_uri d0 =
     update_chart_status
       (update_chart_review_status (clock e)
          ((update_chart_status d0 chart_id PROCESSING None)
             \<lparr>extracted := (extracted (update_chart_status d0 chart_id PROCESSING None))
                 (chart_id \<mapsto> \<lparr>ed_id = next_id (update_chart_status d0 chart_id PROCESSING None),
                                data = ?doc\<rparr>),
              next_id := next_id (update_chart_status d0 chart_id PROCESSING None) + 1\<rparr>)
          chart_id True (Some ?avg) JNull)
       chart_id ?st ?msg"
    using img s1 interp proc err
    by (simp add: run_extraction_task_def create_with_chart [OF c1] Let_def)
  show ?thesis
    apply (subst run, subst run)
    apply (rule exI [where x = "c0\<lparr>c_status := ?st,
        c_error_message :=
          (if exn_str x \<noteq> [] then Some (''Text interpretation failed: '' @ exn_str x)
           else if ?named then Some ''Some items failed to process correctly''
           else c_error_message c0),
        c_needs_review := True,
        c_overall_confidence_score := Some ?avg\<rparr>"])
    apply (rule exI [where x = "\<lparr>ed_id = next_id d0, data = ?doc\<rparr>"])
    apply (rule exI [where x = ?ris])
    using chart rev interp
    apply (simp add: update_chart_status_def
        update_chart_review_status_def Let_def comp_def review_item_fields(1) degraded_fields)
    done
qed

theorem stage2_exhausted_run_witness:
  "\<exists>c ed ris.
      charts (run_extraction_task
        (env_of [[(''item_name'', ''a''), (''raw_text'', ''x'')]] (Raises (ProviderError ''quota'')) [''a''])
        1 ''gs://bucket/chart.jpg'' db0) 1 = Some c
    \<and> c_status c = PARTIAL_SUCCESS
    \<and> c_needs_review c
    \<and> extracted (run_extraction_task
        (env_of [[(''item_name'', ''a''), (''raw_text'', ''x'')]] (Raises (ProviderError ''quota'')) [''a''])
        1 ''gs://bucket/chart.jpg'' db0) 1 = Some ed
    \<and> dict_get (data ed) ''review_items'' = Some (JList ris)
    \<and> map (\<lambda>r. value_get r ''item_name'') ris = [JStr ''a'']
    \<and> map (\<lambda>r. value_get r ''raw_text'') ris = [JStr ''x'']
    \<and> map (\<lambda>r. value_get r ''interpreted_text'') ris = [JStr ''x'']
    \<and> map (\<lambda>r. value_get r ''similarity_score'') ris = [JNum 0]
    \<and> map (\<lambda>r. value_get r ''confidence_score'') ris = [JNum 0]
    \<and> map (\<lambda>r. value_get r ''error_occurred'') ris = [JBool True]
    \<and> map (\<lambda>r. value_get r ''needs_review'') ris = [JBool True]"
proof -
  let ?raw = "[[(''item_name'', ''a''), (''raw_text'', ''x'')]]"
  let ?e = "env_of ?raw (Raises (ProviderError ''quota'')) [''a'']"
  have h1: "charts db0 1 = Some pending_chart" by (simp add: db0_def)
  have h2: "download ?e = Inr (Some ''image'')" "''image'' \<noteq> []" by (simp_all add: env_of_def)
  have h3: "extract_raw_data_from_image (extract_attempt ?e) = Inr ?raw" "?raw \<noteq> []"
    by (simp_all add: env_of_def extract_raw_data_from_image_def retry_loop.simps)
  have h4: "to_dict ''raw_text'' ?raw [] = Inr [(''a'', Some ''x'')]"
    by (simp add: dict_get_def)
  have h5: "\<forall>n\<le>3. \<exists>y. interpret_attempt ?e ?raw n = Raises y" by (simp add: env_of_def)
  have h6: "interpret_attempt ?e ?raw 3 = Raises (ProviderError ''quota'')"
    by (simp add: env_of_def)
  have h7: "iterates (set_order ?e) (all_keys [(''a'', Some ''x'')] [])"
    by (simp add: iterates_def env_of_def fixed_order_def all_keys_def)
  have ks: "set_order ?e (all_keys [(''a'', Some ''x'')] []) = [''a'']"
    by (simp add: env_of_def fixed_order_def)
  from stage2_exhausted_run [OF h1 h2 h3 h4 h5 h6 h7, of "''gs://bucket/chart.jpg''"]
  obtain c ed ris where r:
    "charts (run_extraction_task ?e 1 ''gs://bucket/chart.jpg'' db0) 1 = Some c"
    "c_status c =
       (if exn_str (ProviderError ''quota'') \<noteq> []
           \<or> (\<exists>k \<in> all_keys [(''a'', Some ''x'')] []. k \<notin> set special_keys)
        then PARTIAL_SUCCESS else COMPLETED)"
    "c_needs_review c"
    "extracted (run_extraction_task ?e 1 ''gs://bucket/chart.jpg'' db0) 1 = Some ed"
    "dict_get (data ed) ''review_items'' = Some (JList ris)"
    "map (\<lambda>r. value_get r ''item_name'') ris
       = map JStr (set_order ?e (all_keys [(''a'', Some ''x'')] []))"
    "map (\<lambda>r. value_get r ''raw_text'') ris
       = map (\<lambda>k. opt_str (get_text [(''a'', Some ''x'')] k))
           (set_order ?e (all_keys [(''a'', Some ''x'')] []))"
    "\<forall>r \<in> set ris.
          value_get r ''interpreted_text'' = value_get r ''raw_text''
        \<and> value_get r ''similarity_score'' = JNum 0
        \<and> value_get r ''confidence_score'' = JNum 0
        \<and> value_get r ''error_occurred'' = JBool True
        \<and> value_get r ''needs_review'' = JBool True"
    by (elim exE conjE)
  from r(6) obtain r0 where ris: "ris = [r0]" unfolding ks by (cases ris) auto
  have st: "c_status c = PARTIAL_SUCCESS" using r(2) by simp
  have raw: "value_get r0 ''raw_text'' = JStr ''x''"
    using r(7) unfolding ks ris by (simp add: get_text_def dict_get_def)
  have nm: "value_get r0 ''item_name'' = JStr ''a''" using r(6) unfolding ks ris by simp
  from r(8) have f: "value_get r0 ''interpreted_text'' = value_get r0 ''raw_text''"
      "value_get r0 ''similarity_score'' = JNum 0"
      "value_get r0 ''confidence_score'' = JNum 0"
      "value_get r0 ''error_occurred'' = JBool True"
      "value_get r0 ''needs_review'' = JBool True"
    unfolding ris by simp_all
  show ?thesis
    using r(1) st r(3) r(4) r(5) nm raw f
    unfolding ris by (intro exI [where x = c] exI [where x = ed] exI [where x = "[r0]"]) simp
qed

text \<open>
  The failing run: stage 1 returns one item named \<open>review_items\<close>, every attempt of
  stage 2 raises an exception whose \<open>str\<close> is empty. The run ends as \<open>COMPLETED\<close>, with
  no error message.
\<close>

theorem stage2_exhausted_completed_counterexample:
  "extract_raw_data_from_image (extract_attempt
      (env_of [[(''item_name'', ''review_items''), (''raw_text'', ''x'')]]
         (Raises (ProviderError [])) [''review_items'']))
     = Inr [[(''item_name'', ''review_items''), (''raw_text'', ''x'')]]
   \<and> interpret_extracted_data (interpret_attempt
      (env_of [[(''item_name'', ''review_items''), (''raw_text'', ''x'')]]
         (Raises (ProviderError [])) [''review_items'']))
      [[(''item_name'', ''review_items''), (''raw_text'', ''x'')]] = Inl (ProviderError [])
   \<and> map_option c_status (charts (run_extraction_task
     (env_of [[(''item_name'', ''review_items''), (''raw_text'', ''x'')]]
        (Raises (ProviderError [])) [''review_items''])
     1 ''gs://bucket/chart.jpg'' db0) 1) = Some COMPLETED
   \<and> map_option c_error_message (charts (run_extraction_task
     (env_of [[(''item_name'', ''review_items''), (''raw_text'', ''x'')]]
        (Raises (ProviderError [])) [''review_items''])
     1 ''gs://bucket/chart.jpg'' db0) 1) = Some None"
  by (simp add: run_extraction_task_def env_of_def db0_def pending_chart_def fixed_order_def
      extract_raw_data_from_image_def interpret_extracted_data_def retry_loop.simps
      process_extracted_items_def all_keys_def make_item_data_def get_text_def dict_get_def
      dict_has_def dict_update_def mirror_def get_json_def get_or_def should_review_def
      any_error_def update_chart_status_def create_extracted_data_jsonb_def
      update_chart_review_status_def Let_def)

subsection \<open>An empty result of stage 1\<close>

text \<open>
  C3. When stage 1 returns an empty list, \<open>run_extraction_task\<close> takes the branch
  \<open>if not raw_items\<close>: the run ends as \<open>FAILED\<close> with the message
  "Failed to extract raw data from image" and no document is stored. The substitution of
  the default items that follows in the source is never reached (the sibling fallback
  inside \<open>process_extracted_items\<close> is \<open>process_extracted_items_defaults\<close>).
\<close>

theorem empty_extraction_ends_failed:
  "map_option c_status (charts (run_extraction_task
     (env_of [] (Returns []) []) 1 ''gs://bucket/chart.jpg'' db0) 1) = Some FAILED
   \<and> map_option c_error_message (charts (run_extraction_task
     (env_of [] (Returns []) []) 1 ''gs://bucket/chart.jpg'' db0) 1)
       = Some (Some ''Failed to extract raw data from image'')
   \<and> extracted (run_extraction_task
     (env_of [] (Returns []) []) 1 ''gs://bucket/chart.jpg'' db0) 1 = None"
  by (simp add: run_extraction_task_def env_of_def db0_def pending_chart_def
      extract_raw_data_from_image_def retry_loop.simps
      update_chart_status_def Let_def)

subsection \<open>The document of a default extraction run\<close>

text \<open>
  C10. The document built by \<open>process_extracted_items\<close> has one \<open>review_items\<close> entry
  per field name; every field name that is not a reserved top-level key is also a
  top-level key whose record, with \<open>item_name\<close> added, is that entry; and the mirrors
  \<open>raw_items\<close> and \<open>interpreted_items\<close> have one entry per field, with the name and the
  text of the entry.
\<close>

theorem process_extracted_items_both_layouts:
  assumes rd: "to_dict ''raw_text'' raw_items [] = Inr rd"
      and idc: "to_dict ''interpreted_text'' interpreted_items [] = Inr idc"
      and it: "iterates iter (all_keys rd idc)"
  shows "\<exists>doc nr avg ris.
      process_extracted_items iter raw_items interpreted_items = Inr (doc, nr, avg)
    \<and> dict_get doc ''review_items'' = Some (JList ris)
    \<and> map (\<lambda>r. value_get r ''item_name'') ris = map JStr (iter (all_keys rd idc))
    \<and> (\<forall>k \<in> all_keys rd idc. k \<notin> set special_keys \<longrightarrow>
          (\<exists>record. dict_get doc k = Some (JObj record)
             \<and> JObj (record @ [(''item_name'', JStr k)]) \<in> set ris))
    \<and> dict_get doc ''raw_items'' =
        Some (JList (map (\<lambda>r. JObj [(''item_name'', value_get r ''item_name''),
                                     (''raw_text'', value_get r ''raw_text'')]) ris))
    \<and> dict_get doc ''interpreted_items'' =
        Some (JList (map (\<lambda>r. JObj [(''item_name'', value_get r ''item_name''),
                                     (''interpreted_text'', value_get r ''interpreted_text'')]) ris))"
proof -
  let ?ks = "iter (all_keys rd idc)"
  have s: "set ?ks = all_keys rd idc" using it by (simp add: iterates_def)
  note res = process_extracted_items_result [OF rd idc it]
  have legacy: "\<forall>k \<in> all_keys rd idc. k \<notin> set special_keys \<longrightarrow>
      dict_get (dict_update (map (\<lambda>k. (k, JObj (item_of rd idc k))) ?ks)
            [(''review_items'', JList (map (review_item_of rd idc) ?ks)),
             (''template_id'', JNull),
             (''template_name'', JNull),
             (''raw_items'', mirror ''raw_text'' (map (\<lambda>k. (k, JObj (item_of rd idc k))) ?ks)),
             (''interpreted_items'', mirror ''interpreted_text''
                (map (\<lambda>k. (k, JObj (item_of rd idc k))) ?ks))]) k
        = Some (JObj (item_of rd idc k))
      \<and> JObj (item_of rd idc k @ [(''item_name'', JStr k)]) \<in> set (map (review_item_of rd idc) ?ks)"
    using s by (auto simp: dict_update_def dict_get_set dict_get_map_keys special_keys_def
        review_item_of_def)
  show ?thesis
    apply (subst res)
    apply (intro exI conjI)
         apply (rule refl)
        apply (simp add: dict_update_def dict_get_set)
       apply (simp add: review_item_fields comp_def)
      using legacy apply blast
     apply (simp add: dict_update_def dict_get_set mirror_map review_item_fields comp_def)
    apply (simp add: dict_update_def dict_get_set mirror_map review_item_fields comp_def)
    done
qed



theorem process_extracted_items_both_layouts_witness:
  "\<exists>doc nr avg ris.
      process_extracted_items (fixed_order [''a''])
        [[(''item_name'', ''a''), (''raw_text'', ''x'')]]
        [[(''item_name'', ''a''), (''interpreted_text'', ''x'')]] = Inr (doc, nr, avg)
    \<and> dict_get doc ''review_items'' = Some (JList ris)
    \<and> map (\<lambda>r. value_get r ''item_name'') ris
        = map JStr (fixed_order [''a''] (all_keys [(''a'', Some ''x'')] [(''a'', Some ''x'')]))
    \<and> (\<forall>k \<in> all_keys [(''a'', Some ''x'')] [(''a'', Some ''x'')]. k \<notin> set special_keys \<longrightarrow>
          (\<exists>record. dict_get doc k = Some (JObj record)
             \<and> JObj (record @ [(''item_name'', JStr k)]) \<in> set ris))
    \<and> dict_get doc ''raw_items'' =
        Some (JList (map (\<lambda>r. JObj [(''item_name'', value_get r ''item_name''),
                                     (''raw_text'', value_get r ''raw_text'')]) ris))
    \<and> dict_get doc ''interpreted_items'' =
        Some (JList (map (\<lambda>r. JObj [(''item_name'', value_get r ''item_name''),
                                     (''interpreted_text'', value_get r ''interpreted_text'')]) ris))"
proof -
  have h1: "to_dict ''raw_text'' [[(''item_name'', ''a''), (''raw_text'', ''x'')]] []
      = Inr [(''a'', Some ''x'')]"
    by (simp add: dict_get_def)
  have h2: "to_dict ''interpreted_text'' [[(''item_name'', ''a''), (''interpreted_text'', ''x'')]] []
      = Inr [(''a'', Some ''x'')]"
    by (simp add: dict_get_def)
  have h3: "iterates (fixed_order [''a'']) (all_keys [(''a'', Some ''x'')] [(''a'', Some ''x'')])"
    by (simp add: iterates_def fixed_order_def all_keys_def)
  show ?thesis
    by (rule process_extracted_items_both_layouts [OF h1 h2 h3])
qed

text \<open>
  A field whose name is a reserved key is not in both layouts: the top-level key
  \<open>template_id\<close> holds null, while \<open>review_items\<close> has the record of the field.
\<close>

theorem reserved_name_counterexample:
  "process_extracted_items (fixed_order [''template_id''])
     [[(''item_name'', ''template_id''), (''raw_text'', ''x'')]]
     [[(''item_name'', ''template_id''), (''interpreted_text'', ''x'')]]
   = Inr ([(''template_id'', JNull),
           (''review_items'',
            JList [JObj [(''raw_text'', JStr ''x''), (''interpreted_text'', JStr ''x''),
                         (''similarity_score'', JNum 1), (''confidence_score'', JNum 1),
                         (''needs_review'', JBool False), (''review_comment'', JNull),
                         (''reviewed_by'', JNull), (''reviewed_at'', JNull),
                         (''error_occurred'', JBool False), (''threshold'', JNum 0.7),
                         (''item_name'', JStr ''template_id'')]]),
           (''template_name'', JNull),
           (''raw_items'',
            JList [JObj [(''item_name'', JStr ''template_id''), (''raw_text'', JStr ''x'')]]),
           (''interpreted_items'',
            JList [JObj [(''item_name'', JStr ''template_id''),
                         (''interpreted_text'', JStr ''x'')]])],
          False, 1)"
  by (simp add: process_extracted_items_def fixed_order_def all_keys_def make_item_data_def
      get_text_def dict_get_def dict_update_def mirror_def get_json_def get_or_def
      should_review_def SIMILARITY_THRESHOLD_def CONFIDENCE_THRESHOLD_def strip_def
      py_isspace_def fuzz_ratio_def Let_def)


section \<open>Properties of the reconciler\<close>

subsection \<open>The stored document and its keys\<close>

lemma dict_get_Some_mem: "dict_get d k = Some v \<Longrightarrow> (k, v) \<in> set d"
  by (simp add: dict_get_def map_of_SomeD)



lemma fold_dict_set_get:
  "dict_get (fold (\<lambda>(k, v) acc. dict_set acc (f k) v) xs acc) s =
     (case map_of (rev (map (\<lambda>(k, v). (f k, v)) xs)) s of
        Some v \<Rightarrow> Some v
      | None \<Rightarrow> dict_get acc s)"
proof (induction xs arbitrary: acc)
  case Nil
  then show ?case by simp
next
  case (Cons p xs)
  obtain k v where p: "p = (k, v)" by (cases p)
  show ?case
    by (simp add: p Cons.IH dict_get_set map_add_def split: option.splits)
qed

lemma json_object_get:
  "dict_get (json_object num_str m) s =
     map_of (rev (map (\<lambda>(k, v). (json_key num_str k, v)) m)) s"
  unfolding json_object_def
  by (subst fold_dict_set_get) (simp add: dict_get_def split: option.splits)

lemma json_object_mem:
  "dict_get (json_object num_str m) s = Some v \<Longrightarrow>
   \<exists>k. (k, v) \<in> set m \<and> json_key num_str k = s"
  unfolding json_object_get by (auto dest!: map_of_SomeD)

lemma py_set_all:
  "list_all Q d \<Longrightarrow> (\<And>k'. key_norm k' = key_norm k \<Longrightarrow> Q (k', v)) \<Longrightarrow> list_all Q (py_set d k v)"
  by (induction d) auto

lemma key_norm_str: "key_norm k' = key_norm (KStr s) \<longleftrightarrow> k' = KStr s"
  by (cases k') auto

lemma standard_items_entries:
  "standard_items ris acc = Inr sf \<Longrightarrow> list_all no_list_entry acc \<Longrightarrow> list_all no_list_entry sf"
proof (induction ris acc rule: standard_items.induct)
  case (2 item items standard_format)
  show ?case
  proof (cases "dict_get item ''item_name''")
    case None
    with 2 show ?thesis by simp
  next
    case (Some item_name)
    with "2.prems"(1) obtain name where name: "as_key item_name = Inr name"
      by (cases "as_key item_name") auto
    let ?acc = "py_set standard_format name (JObj (filter (\<lambda>(k, v). k \<noteq> ''item_name'') item))"
    have run: "standard_items items ?acc = Inr sf" using "2.prems"(1) Some name by simp
    have "list_all no_list_entry ?acc"
      using "2.prems"(2) by (rule py_set_all) (simp add: no_list_entry_def)
    with "2.IH"(2) [OF Some name run] show ?thesis .
  qed
qed auto

lemma key_norm_str': "key_norm k' = KStr s \<longleftrightarrow> k' = KStr s"
  by (cases k') auto

lemma keep_metadata_entries:
  "list_all no_list_entry sf \<Longrightarrow> list_all no_list_entry (keep_metadata doc sf)"
  unfolding keep_metadata_def
proof (induction doc arbitrary: sf)
  case Nil
  then show ?case by simp
next
  case (Cons p doc)
  obtain k v where p: "p = (k, v)" by (cases p)
  have "list_all no_list_entry
          (if k \<noteq> ''review_items'' \<and> \<not> py_has sf (KStr k) then py_set sf (KStr k) v else sf)"
  proof (cases "k \<noteq> ''review_items'' \<and> \<not> py_has sf (KStr k)")
    case True
    have "list_all no_list_entry (py_set sf (KStr k) v)"
      using Cons.prems
      by (rule py_set_all) (use True in \<open>simp add: no_list_entry_def key_norm_str'\<close>)
    with True show ?thesis by simp
  next
    case False
    with Cons.prems show ?thesis by auto
  qed
  then show ?case unfolding p by (simp add: Cons.IH)
qed

lemma converted_no_list:
  assumes "standard_items ris [] = Inr sf"
  shows "dict_get (json_object num_str (keep_metadata doc sf)) ''review_items'' \<noteq> Some (JList l)"
proof
  assume "dict_get (json_object num_str (keep_metadata doc sf)) ''review_items'' = Some (JList l)"
  then obtain k where k: "(k, JList l) \<in> set (keep_metadata doc sf)"
      "json_key num_str k = ''review_items''"
    by (auto dest: json_object_mem)
  have "list_all no_list_entry (keep_metadata doc sf)"
    using standard_items_entries [OF assms] by (simp add: keep_metadata_entries)
  with k(1) have "no_list_entry (k, JList l)" by (auto simp: list_all_iff)
  with k(2) show False by (auto simp: no_list_entry_def)
qed

lemma as_key_hashable: "(\<exists>e. as_key v = Inl e) = (\<not> hashable v)"
  by (cases v) auto

lemma standard_items_raises:
  "(\<exists>e. standard_items ris acc = Inl e) \<longleftrightarrow>
   (\<exists>r v. JObj r \<in> set ris \<and> dict_get r ''item_name'' = Some v \<and> \<not> hashable v)"
proof (induction ris acc rule: standard_items.induct)
  case (1 standard_format)
  then show ?case by simp
next
  case (2 item items standard_format)
  show ?case
  proof (cases "dict_get item ''item_name''")
    case None
    with "2.IH"(1) show ?thesis by auto
  next
    case (Some item_name)
    show ?thesis
    proof (cases "as_key item_name")
      case (Inl e)
      then have "\<not> hashable item_name" using as_key_hashable [of item_name] by auto
      with Some Inl show ?thesis by auto
    next
      case (Inr name)
      then have h: "hashable item_name" using as_key_hashable [of item_name] by auto
      from "2.IH"(2) [OF Some Inr] Some Inr h show ?thesis by auto
    qed
  qed
qed simp_all
















subsection \<open>The direction of the conversion\<close>




subsection \<open>Idempotence\<close>

text \<open>
  C9. \<open>convert_to_standard_format\<close> is idempotent: a second call, made on the database
  as the first call left it, gives the outcome of the first call (the same answer and the
  same database); this holds for every document and whatever the numerals of number keys
  are. On a document that has no \<open>review_items\<close> list (the map layout, the format the
  function produces) a call changes nothing and answers true. A call raises exactly when
  some record of the \<open>review_items\<close> list is named by a list or a dict, and then nothing is
  written.
\<close>

theorem convert_idempotent:
  "convert_to_standard_format num_str' (db_after (convert_to_standard_format num_str d chart_id) d)
       chart_id
     = convert_to_standard_format num_str d chart_id
   \<and> (extracted d chart_id = Some row \<and> (\<forall>l. dict_get (data row) ''review_items'' \<noteq> Some (JList l))
      \<longrightarrow> convert_to_standard_format num_str d chart_id = Inr (True, d))
   \<and> ((\<exists>e. convert_to_standard_format num_str d chart_id = Inl e) \<longleftrightarrow>
        (\<exists>row ris r v. extracted d chart_id = Some row
            \<and> dict_get (data row) ''review_items'' = Some (JList ris)
            \<and> JObj r \<in> set ris \<and> dict_get r ''item_name'' = Some v \<and> \<not> hashable v))"
proof (intro conjI impI)
  show "convert_to_standard_format num_str' (db_after (convert_to_standard_format num_str d chart_id) d)
       chart_id
     = convert_to_standard_format num_str d chart_id"
  proof (cases "extracted d chart_id")
    case None
    then show ?thesis by (simp add: convert_to_standard_format_def db_after_def)
  next
    case (Some row)
    show ?thesis
    proof (cases "\<exists>l. dict_get (data row) ''review_items'' = Some (JList l)")
      case False
      with Some have "\<And>n. convert_to_standard_format n d chart_id = Inr (True, d)"
        by (auto simp: convert_to_standard_format_def split: option.splits json.splits)
      then show ?thesis by (simp add: db_after_def)
    next
      case True
      then obtain l where l: "dict_get (data row) ''review_items'' = Some (JList l)" by blast
      show ?thesis
      proof (cases "standard_items l []")
        case (Inl e)
        with Some l have "\<And>n. convert_to_standard_format n d chart_id = Inl e"
          by (simp add: convert_to_standard_format_def)
        then show ?thesis by (simp add: db_after_def)
      next
        case (Inr sf)
        let ?doc = "json_object num_str (keep_metadata (data row) sf)"
        let ?d' = "d\<lparr>extracted := (extracted d)(chart_id \<mapsto> row\<lparr>data := ?doc\<rparr>)\<rparr>"
        have first: "convert_to_standard_format num_str d chart_id = Inr (True, ?d')"
          using Some l Inr by (simp add: convert_to_standard_format_def)
        have "\<And>l'. dict_get ?doc ''review_items'' \<noteq> Some (JList l')"
          using converted_no_list [OF Inr] .
        then have "convert_to_standard_format num_str' ?d' chart_id = Inr (True, ?d')"
          by (auto simp: convert_to_standard_format_def split: option.splits json.splits)
        with first show ?thesis by (simp add: db_after_def)
      qed
    qed
  qed
next
  assume "extracted d chart_id = Some row \<and> (\<forall>l. dict_get (data row) ''review_items'' \<noteq> Some (JList l))"
  then show "convert_to_standard_format num_str d chart_id = Inr (True, d)"
    by (auto simp: convert_to_standard_format_def split: option.splits json.splits)
next
  show "(\<exists>e. convert_to_standard_format num_str d chart_id = Inl e) \<longleftrightarrow>
        (\<exists>row ris r v. extracted d chart_id = Some row
            \<and> dict_get (data row) ''review_items'' = Some (JList ris)
            \<and> JObj r \<in> set ris \<and> dict_get r ''item_name'' = Some v \<and> \<not> hashable v)"
  proof (cases "extracted d chart_id")
    case None
    then show ?thesis by (simp add: convert_to_standard_format_def)
  next
    case (Some row)
    show ?thesis
    proof (cases "\<exists>l. dict_get (data row) ''review_items'' = Some (JList l)")
      case False
      with Some show ?thesis
        by (auto simp: convert_to_standard_format_def split: option.splits json.splits)
    next
      case True
      then obtain l where l: "dict_get (data row) ''review_items'' = Some (JList l)" by blast
      have "(\<exists>e. convert_to_standard_format num_str d chart_id = Inl e)
            \<longleftrightarrow> (\<exists>e. standard_items l [] = Inl e)"
        using Some l by (auto simp: convert_to_standard_format_def split: sum.splits)
      also have "\<dots> \<longleftrightarrow> (\<exists>r v. JObj r \<in> set l \<and> dict_get r ''item_name'' = Some v \<and> \<not> hashable v)"
        by (rule standard_items_raises)
      finally show ?thesis using Some l by auto
    qed
  qed
qed

theorem convert_idempotent_witness:
  "convert_to_standard_format numeral_one
     (db_after
        (convert_to_standard_format numeral_one
           (stored 7 [(''review_items'',
                       JList [JObj [(''item_name'', JNum 1), (''raw_text'', JStr ''x'')]]),
                      (''template_id'', JNull)]) 1)
        (stored 7 [(''review_items'',
                    JList [JObj [(''item_name'', JNum 1), (''raw_text'', JStr ''x'')]]),
                   (''template_id'', JNull)])) 1
   = Inr (True, stored 7 [(''1'', JObj [(''raw_text'', JStr ''x'')]), (''template_id'', JNull)])
   \<and> convert_to_standard_format numeral_one
     (stored 7 [(''1'', JObj [(''raw_text'', JStr ''x'')]), (''template_id'', JNull)]) 1
   = Inr (True, stored 7 [(''1'', JObj [(''raw_text'', JStr ''x'')]), (''template_id'', JNull)])"
proof -
  let ?A = "[(''review_items'',
              JList [JObj [(''item_name'', JNum 1), (''raw_text'', JStr ''x'')]]),
             (''template_id'', JNull)]"
  let ?M = "[(''1'', JObj [(''raw_text'', JStr ''x'')]), (''template_id'', JNull)]"
  have h: "convert_to_standard_format numeral_one (stored 7 ?A) 1 = Inr (True, stored 7 ?M)"
    by (simp add: convert_to_standard_format_def stored_def dict_get_def keep_metadata_def
        py_has_def json_object_def numeral_one_def)
  note t = convert_idempotent [of numeral_one numeral_one "stored 7 ?A" 1]
  from t [THEN conjunct1] h
  have 1: "convert_to_standard_format numeral_one
             (db_after (convert_to_standard_format numeral_one (stored 7 ?A) 1) (stored 7 ?A)) 1
           = Inr (True, stored 7 ?M)"
    by (simp only:)
  have g: "extracted (stored 7 ?M) 1 = Some \<lparr>ed_id = 7, data = ?M\<rparr>
           \<and> (\<forall>l. dict_get (data \<lparr>ed_id = 7, data = ?M\<rparr>) ''review_items'' \<noteq> Some (JList l))"
    by (simp add: stored_def dict_get_def)
  from convert_idempotent [of numeral_one numeral_one "stored 7 ?M" 1 "\<lparr>ed_id = 7, data = ?M\<rparr>",
      THEN conjunct2, THEN conjunct1] g
  have 2: "convert_to_standard_format numeral_one (stored 7 ?M) 1 = Inr (True, stored 7 ?M)"
    by (rule mp)
  from 1 2 show ?thesis by (rule conjI)
qed

text \<open>
  A document in the array layout is not left as it is: its \<open>review_items\<close> list is
  replaced by entries under the field names.
\<close>

theorem array_document_rewritten_counterexample:
  "convert_to_standard_format numeral_one
     (stored 7 [(''review_items'',
                 JList [JObj [(''item_name'', JStr ''a''), (''raw_text'', JStr ''x'')]])]) 1
   = Inr (True, stored 7 [(''a'', JObj [(''raw_text'', JStr ''x'')])])"
  by (simp add: convert_to_standard_format_def stored_def dict_get_def keep_metadata_def
      py_has_def json_object_def)


section \<open>Properties of the review state\<close>

lemma filter_split:
  "filter P rs = pre' @ m # post' \<Longrightarrow>
   \<exists>pre post. rs = pre @ m # post \<and> filter P pre = pre' \<and> filter P post = post'"
proof (induction rs arbitrary: pre')
  case Nil
  then show ?case by simp
next
  case (Cons r rs)
  show ?case
  proof (cases "P r")
    case False
    with Cons.prems have "filter P rs = pre' @ m # post'" by simp
    from Cons.IH [OF this] obtain pre post
      where "rs = pre @ m # post" "filter P pre = pre'" "filter P post = post'" by blast
    with False have "r # rs = (r # pre) @ m # post \<and> filter P (r # pre) = pre' \<and> filter P post = post'"
      by simp
    then show ?thesis by blast
  next
    case True
    show ?thesis
    proof (cases pre')
      case Nil
      with True Cons.prems have "r # rs = [] @ m # rs \<and> filter P [] = pre' \<and> filter P rs = post'"
        by simp
      then show ?thesis by blast
    next
      case (Cons p ps)
      with True Cons.prems have p: "p = r" and "filter P rs = ps @ m # post'" by simp_all
      from Cons.IH [OF this(2)] obtain pre post
        where "rs = pre @ m # post" "filter P pre = ps" "filter P post = post'" by blast
      with True p Cons have "r # rs = (r # pre) @ m # post \<and> filter P (r # pre) = pre' \<and> filter P post = post'"
        by simp
      then show ?thesis by blast
    qed
  qed
qed

lemma key_string:
  "get_json r ''reviewed_at'' = JStr s \<Longrightarrow> get_or r ''reviewed_at'' (JStr []) = JStr s"
  by (auto simp: get_json_def get_or_def split: option.splits)

lemma max_by_first_latest:
  "\<forall>r \<in> set (best # xs). get_json r ''reviewed_at'' = JStr (reviewed_at_str r) \<Longrightarrow>
   \<exists>m pre post. max_by_reviewed_at best xs = Inr m \<and> best # xs = pre @ m # post
     \<and> (\<forall>r \<in> set pre. reviewed_at_str r < reviewed_at_str m)
     \<and> (\<forall>r \<in> set post. reviewed_at_str r \<le> reviewed_at_str m)"
proof (induction xs arbitrary: best)
  case Nil
  have "max_by_reviewed_at best [] = Inr best \<and> [best] = [] @ best # []
     \<and> (\<forall>r \<in> set []. reviewed_at_str r < reviewed_at_str best)
     \<and> (\<forall>r \<in> set []. reviewed_at_str r \<le> reviewed_at_str best)" by simp
  then show ?case by blast
next
  case (Cons x xs)
  have kb: "get_or best ''reviewed_at'' (JStr []) = JStr (reviewed_at_str best)"
    using Cons.prems by (simp add: key_string)
  have kx: "get_or x ''reviewed_at'' (JStr []) = JStr (reviewed_at_str x)"
    using Cons.prems by (simp add: key_string)
  show ?case
  proof (cases "reviewed_at_str best < reviewed_at_str x")
    case True
    have step: "max_by_reviewed_at best (x # xs) = max_by_reviewed_at x xs"
      using True by (simp add: kb kx)
    have "\<forall>r \<in> set (x # xs). get_json r ''reviewed_at'' = JStr (reviewed_at_str r)"
      using Cons.prems by simp
    from Cons.IH [OF this] obtain m pre post where
      m: "max_by_reviewed_at x xs = Inr m" and sp: "x # xs = pre @ m # post"
      and lt: "\<forall>r \<in> set pre. reviewed_at_str r < reviewed_at_str m"
      and le: "\<forall>r \<in> set post. reviewed_at_str r \<le> reviewed_at_str m" by blast
    have "reviewed_at_str x \<le> reviewed_at_str m"
    proof (cases pre)
      case Nil
      with sp show ?thesis by simp
    next
      case (Cons p ps)
      with sp have "x \<in> set pre" by simp
      with lt show ?thesis by auto
    qed
    with True have "reviewed_at_str best < reviewed_at_str m" by simp
    with lt have "\<forall>r \<in> set (best # pre). reviewed_at_str r < reviewed_at_str m" by simp
    moreover have "best # x # xs = (best # pre) @ m # post" using sp by simp
    ultimately show ?thesis using m le step by metis
  next
    case False
    have step: "max_by_reviewed_at best (x # xs) = max_by_reviewed_at best xs"
      using False by (simp add: kb kx)
    have "\<forall>r \<in> set (best # xs). get_json r ''reviewed_at'' = JStr (reviewed_at_str r)"
      using Cons.prems by simp
    from Cons.IH [OF this] obtain m pre post where
      m: "max_by_reviewed_at best xs = Inr m" and sp: "best # xs = pre @ m # post"
      and lt: "\<forall>r \<in> set pre. reviewed_at_str r < reviewed_at_str m"
      and le: "\<forall>r \<in> set post. reviewed_at_str r \<le> reviewed_at_str m" by blast
    show ?thesis
    proof (cases pre)
      case Nil
      with sp have b: "best = m" "xs = post" by simp_all
      with False le have "\<forall>r \<in> set (x # post). reviewed_at_str r \<le> reviewed_at_str m" by auto
      moreover have "best # x # xs = [] @ m # (x # post)" using b by simp
      moreover have "\<forall>r \<in> set []. reviewed_at_str r < reviewed_at_str m" by simp
      ultimately show ?thesis using m step by metis
    next
      case (Cons p ps)
      with sp have p: "p = best" "xs = ps @ m # post" by simp_all
      with lt Cons have "reviewed_at_str best < reviewed_at_str m" by simp
      with False have "reviewed_at_str x < reviewed_at_str m" by simp
      with lt Cons p have "\<forall>r \<in> set (best # x # ps). reviewed_at_str r < reviewed_at_str m" by simp
      moreover have "best # x # xs = (best # x # ps) @ m # post" using p by simp
      ultimately show ?thesis using m le step by metis
    qed
  qed
qed


lemma reviewed_string:
  "timestamps_ok rs \<Longrightarrow> r \<in> set rs \<Longrightarrow> has_reviewed_at r \<Longrightarrow>
   get_json r ''reviewed_at'' = JStr (reviewed_at_str r)"
  by (auto simp: timestamps_ok_def list_all_iff has_reviewed_at_def)

lemma reviewed_nonempty: "has_reviewed_at m \<Longrightarrow> m \<noteq> []"
  by (auto simp: has_reviewed_at_def get_json_def get_or_def dict_get_def)

lemma recompute_aggregate_unfold:
  "recompute_aggregate rs =
     (if \<not> list_ex flagged rs \<and> rs \<noteq> [] then
        (case filter has_reviewed_at rs of
           [] \<Rightarrow> Inr (False, JNull)
         | x # xs \<Rightarrow>
             (case max_by_reviewed_at x xs of
                Inl e \<Rightarrow> Inl e
              | Inr latest_item \<Rightarrow>
                  Inr (False, if latest_item \<noteq> [] then get_json latest_item ''reviewed_by''
                              else JNull)))
      else Inr (list_ex flagged rs, JNull))"
proof -
  have f: "(\<lambda>item. truthy (get_or item ''needs_review'' (JBool False))) = flagged"
    by (rule ext) (simp add: flagged_def)
  have h: "(\<lambda>item. truthy (get_json item ''reviewed_at'')) = has_reviewed_at"
    by (rule ext) (simp add: has_reviewed_at_def)
  show ?thesis
    by (auto simp: recompute_aggregate_def Let_def f h split: list.splits sum.splits)
qed


text \<open>
  C6. For a list of records whose \<open>reviewed_at\<close> values are strings or null, the aggregate
  is computed without an exception; \<open>needs_review\<close> is true exactly when some record is
  flagged for review (so it is false for the empty list); the reviewer is null when
  \<open>needs_review\<close> is true or no record has a \<open>reviewed_at\<close>; otherwise it is the
  \<open>reviewed_by\<close> of the first record, in the order of the list, whose \<open>reviewed_at\<close> is
  the latest: the records before it are strictly earlier, the records after it are not
  later.
\<close>

theorem recompute_aggregate_first_latest:
  assumes ok: "timestamps_ok rs"
  shows "\<exists>nr by. recompute_aggregate rs = Inr (nr, by)
     \<and> nr = (\<exists>r \<in> set rs. flagged r)
     \<and> (nr \<or> \<not> (\<exists>r \<in> set rs. has_reviewed_at r) \<longrightarrow> by = JNull)
     \<and> (\<not> nr \<and> (\<exists>r \<in> set rs. has_reviewed_at r) \<longrightarrow>
          (\<exists>pre m post. rs = pre @ m # post \<and> has_reviewed_at m
             \<and> by = get_json m ''reviewed_by''
             \<and> (\<forall>r \<in> set pre. has_reviewed_at r \<longrightarrow> reviewed_at_str r < reviewed_at_str m)
             \<and> (\<forall>r \<in> set post. has_reviewed_at r \<longrightarrow> reviewed_at_str r \<le> reviewed_at_str m)))"
proof (cases "list_ex flagged rs")
  case True
  then have "recompute_aggregate rs = Inr (True, JNull)"
    by (simp add: recompute_aggregate_unfold)
  with True show ?thesis by (auto simp: list_ex_iff)
next
  case nf: False
  show ?thesis
  proof (cases "filter has_reviewed_at rs")
    case Nil
    then have none: "\<not> (\<exists>r \<in> set rs. has_reviewed_at r)"
      by (auto simp: filter_empty_conv)
    have "recompute_aggregate rs = Inr (False, JNull)"
      using nf Nil by (simp add: recompute_aggregate_unfold)
    with nf none show ?thesis by (auto simp: list_ex_iff)
  next
    case (Cons x xs)
    then have ne: "rs \<noteq> []" by auto
    have mem: "\<And>r. r \<in> set (x # xs) \<Longrightarrow> r \<in> set rs \<and> has_reviewed_at r"
    proof -
      fix r assume "r \<in> set (x # xs)"
      then have "r \<in> set (filter has_reviewed_at rs)" using Cons by simp
      then show "r \<in> set rs \<and> has_reviewed_at r" by simp
    qed
    have "\<forall>r \<in> set (x # xs). get_json r ''reviewed_at'' = JStr (reviewed_at_str r)"
      using mem reviewed_string [OF ok] by blast
    from max_by_first_latest [OF this] obtain m pre' post' where
      m: "max_by_reviewed_at x xs = Inr m" and sp: "x # xs = pre' @ m # post'"
      and lt: "\<forall>r \<in> set pre'. reviewed_at_str r < reviewed_at_str m"
      and le: "\<forall>r \<in> set post'. reviewed_at_str r \<le> reviewed_at_str m" by blast
    have hm: "has_reviewed_at m" using mem [of m] sp by simp
    have res: "recompute_aggregate rs = Inr (False, get_json m ''reviewed_by'')"
      using nf ne Cons m reviewed_nonempty [OF hm] by (simp add: recompute_aggregate_unfold)
    have "filter has_reviewed_at rs = pre' @ m # post'" using Cons sp by simp
    from filter_split [OF this] obtain pre post where
      rs: "rs = pre @ m # post" and fp: "filter has_reviewed_at pre = pre'"
      and fq: "filter has_reviewed_at post = post'" by blast
    have l1: "\<forall>r \<in> set pre. has_reviewed_at r \<longrightarrow> reviewed_at_str r < reviewed_at_str m"
      using lt fp by auto
    have l2: "\<forall>r \<in> set post. has_reviewed_at r \<longrightarrow> reviewed_at_str r \<le> reviewed_at_str m"
      using le fq by auto
    have ex: "\<exists>pre m' post. rs = pre @ m' # post \<and> has_reviewed_at m'
             \<and> get_json m ''reviewed_by'' = get_json m' ''reviewed_by''
             \<and> (\<forall>r \<in> set pre. has_reviewed_at r \<longrightarrow> reviewed_at_str r < reviewed_at_str m')
             \<and> (\<forall>r \<in> set post. has_reviewed_at r \<longrightarrow> reviewed_at_str r \<le> reviewed_at_str m')"
      using rs hm l1 l2 by blast
    have some: "\<exists>r \<in> set rs. has_reviewed_at r" using rs hm by auto
    have nf': "\<not> (\<exists>r \<in> set rs. flagged r)" using nf by (simp add: list_ex_iff)
    show ?thesis
      apply (rule exI [where x = False], rule exI [where x = "get_json m ''reviewed_by''"])
      using res nf' some ex by simp
  qed
qed


theorem recompute_aggregate_first_latest_witness:
  "timestamps_ok [alice, bob] \<and> (\<exists>nr by. recompute_aggregate [alice, bob] = Inr (nr, by))"
proof -
  have h: "timestamps_ok [alice, bob]"
    by (simp add: timestamps_ok_def reviewed_at_str_def alice_def bob_def get_json_def
        get_or_def dict_get_def)
  from recompute_aggregate_first_latest [OF h]
  have "\<exists>nr by. recompute_aggregate [alice, bob] = Inr (nr, by)" by blast
  with h show ?thesis by simp
qed

text \<open>
  With a tie, the code keeps the first of the latest records (\<open>max\<close> replaces its
  candidate only by a strictly greater one), the specification's wording the last.
\<close>

theorem tie_first_seen_counterexample:
  "recompute_aggregate [alice, bob] = Inr (False, JStr ''alice'')
   \<and> spec_reviewed_by [alice, bob] = JStr ''bob''"
  by (simp add: recompute_aggregate_def spec_reviewed_by_def has_reviewed_at_def
      reviewed_at_str_def alice_def bob_def get_json_def get_or_def dict_get_def)


section \<open>Properties of the single-field review update\<close>


























end
